theory Spec2Isabelle
  imports Complex_Main "HOL-Library.Sublist"
begin

section \<open>Values\<close>

text \<open>
  Python's \<^verbatim>\<open>Decimal\<close>, restricted to the finite values a price takes: a signed
  coefficient and the number of digits after the decimal point, so that
  \<open>Decimal 1050 2\<close> is \<^verbatim>\<open>Decimal('10.50')\<close> and \<open>Decimal 105000 4\<close> is
  \<^verbatim>\<open>Decimal('10.5000')\<close>. The two are different objects with the same numeric value.
\<close>

datatype decimal = Decimal (coefficient: int) (places: nat)

text \<open>
  \<^verbatim>\<open>Decimal.__eq__\<close> and \<^verbatim>\<open>Decimal.__ne__\<close> compare numeric values, not
  representations: both coefficients are brought to a common number of places.
\<close>

fun dec_eq :: "decimal \<Rightarrow> decimal \<Rightarrow> bool" where
  "dec_eq (Decimal a m) (Decimal b n) \<longleftrightarrow> a * 10 ^ n = b * 10 ^ m"

definition dec_ne :: "decimal \<Rightarrow> decimal \<Rightarrow> bool" where
  "dec_ne x y \<longleftrightarrow> \<not> dec_eq x y"

text \<open>The number a decimal denotes, used only to state what the comparison decides.\<close>

fun dec_val :: "decimal \<Rightarrow> rat" where
  "dec_val (Decimal a m) = of_int a / 10 ^ m"

text \<open>
  The item record \<^verbatim>\<open>product: Dict\<close> of \<^verbatim>\<open>update_product\<close>, restricted to the
  seven keys the function reads. A field is \<open>None\<close> when the key is absent from the
  dict. Values have the types the API gives them: text for the identifier, model,
  colour, alternate code and category, an integer for the stock count, and for the
  price a number, represented by the decimal that \<^verbatim>\<open>str\<close> prints for it
  (so \<^verbatim>\<open>Decimal(str(product['price']))\<close> is that decimal).
\<close>

record product =
  sku :: "string option"
  model :: "string option"
  color :: "string option"
  price :: "decimal option"
  in_stock :: "int option"
  ean :: "string option"
  cat_name :: "string option"

datatype error =
    KeyError string
  | ValueError
  | StringDataRightTruncation
  | NumericValueOutOfRange
  | UniqueViolation
  | ForeignKeyViolation

text \<open>\<^verbatim>\<open>product[key]\<close> raises \<^verbatim>\<open>KeyError\<close> on an absent key; \<^verbatim>\<open>product.get(key, default)\<close> does not.\<close>

definition getitem :: "string \<Rightarrow> 'a option \<Rightarrow> error + 'a" where
  "getitem key v = (case v of None \<Rightarrow> Inl (KeyError key) | Some x \<Rightarrow> Inr x)"

definition get_default :: "'a option \<Rightarrow> 'a \<Rightarrow> 'a" where
  "get_default v d = (case v of None \<Rightarrow> d | Some x \<Rightarrow> x)"

section \<open>The tables of \<^verbatim>\<open>create_tables\<close>\<close>

text \<open>
  psycopg2 builds the text of a statement from its parameters before anything is sent to
  the server, and refuses a string parameter that contains the character NUL with
  \<^verbatim>\<open>ValueError\<close>. A string is a list of characters; its length is their number.
\<close>

definition adapt_text :: "string \<Rightarrow> error + string" where
  "adapt_text s = (if CHR 0x00 \<in> set s then Inl ValueError else Inr s)"

text \<open>
  Column types of \<^verbatim>\<open>setup_db.py\<close>. A \<^verbatim>\<open>DECIMAL(10, 2)\<close> column holds a number
  with exactly two digits after the point and at most ten digits in all; it is
  represented by its unscaled value (the amount in hundredths). Storing a number with
  more fractional digits rounds it to two places, ties away from zero; a result that
  needs more than ten digits is an error, and so is a number written with more than
  16383 digits after the point, which is outside PostgreSQL's numeric format.
  \<^verbatim>\<open>VARCHAR(255)\<close> takes a string of at most 255 characters as it is; of a longer
  string it takes the first 255 characters when all the others are blanks, and a longer
  string with anything else beyond the 255th character is an error. \<^verbatim>\<open>INTEGER\<close> is a
  signed 32-bit integer; a value outside is an error.
  Timestamps are natural numbers. The fields of a row are the columns of its table, with
  a prefix where a column has the name of a key of the item record or of a column of
  the other table.
\<close>

type_synonym numeric_10_2 = int

fun quantize2 :: "decimal \<Rightarrow> int" where
  "quantize2 (Decimal a m) = sgn a * ((2 * \<bar>a\<bar> * 100 + 10 ^ m) div (2 * 10 ^ m))"

definition to_numeric_10_2 :: "decimal \<Rightarrow> error + numeric_10_2" where
  "to_numeric_10_2 d =
     (if 16383 < places d then Inl NumericValueOutOfRange
      else let q = quantize2 d
           in if \<bar>q\<bar> < 10 ^ 10 then Inr q else Inl NumericValueOutOfRange)"

definition to_varchar_255 :: "string \<Rightarrow> error + string" where
  "to_varchar_255 s =
     (if length s \<le> 255 then Inr s
      else if list_all (\<lambda>c. c = CHR '' '') (drop 255 s) then Inr (take 255 s)
      else Inl StringDataRightTruncation)"

definition to_integer :: "int \<Rightarrow> error + int" where
  "to_integer n = (if - (2 ^ 31) \<le> n \<and> n < 2 ^ 31 then Inr n else Inl NumericValueOutOfRange)"

text \<open>What psycopg2 hands back for a \<^verbatim>\<open>DECIMAL(10, 2)\<close> column: a \<^verbatim>\<open>Decimal\<close> with two places.\<close>

definition from_numeric_10_2 :: "numeric_10_2 \<Rightarrow> decimal" where
  "from_numeric_10_2 q = Decimal q 2"

record products_row =
  p_sku :: string
  p_model :: string
  p_color :: string
  current_price :: numeric_10_2
  last_updated :: nat
  p_stock_level :: int
  p_ean :: string
  category :: string

text \<open>
  The \<^verbatim>\<open>id SERIAL\<close> column of \<^verbatim>\<open>price_history\<close> is the position of the row in the
  list: rows are only ever appended.
\<close>

record price_history_row =
  h_sku :: string
  h_price :: numeric_10_2
  h_stock_level :: int
  h_timestamp :: nat

record database =
  products :: "products_row list"
  price_history :: "price_history_row list"

text \<open>Sequencing of fallible steps: the first error ends the statement.\<close>

definition bnd :: "error + 'a \<Rightarrow> ('a \<Rightarrow> error + 'b) \<Rightarrow> error + 'b" where
  "bnd r f = (case r of Inl e \<Rightarrow> Inl e | Inr x \<Rightarrow> f x)"

text \<open>
  The rows found by \<^verbatim>\<open>SELECT current_price FROM products WHERE sku = %s\<close> followed by
  \<^verbatim>\<open>fetchone()\<close>. The column \<^verbatim>\<open>sku\<close> is a \<^verbatim>\<open>VARCHAR(255)\<close>: it holds no value of
  more than 255 characters, so a longer parameter is equal to none.
\<close>

definition select_current_price :: "string \<Rightarrow> database \<Rightarrow> decimal option" where
  "select_current_price k d =
     (if length k \<le> 255
      then map_option (\<lambda>r. from_numeric_10_2 (current_price r))
             (find (\<lambda>r. p_sku r = k) (products d))
      else None)"

text \<open>
  \<^verbatim>\<open>INSERT INTO products (sku, model, color, current_price, stock_level, ean, category)\<close>:
  psycopg2 adapts the parameters, the server converts the values to the column types,
  \<^verbatim>\<open>last_updated\<close> takes its default \<^verbatim>\<open>CURRENT_TIMESTAMP\<close>, and the primary key on
  \<^verbatim>\<open>sku\<close> rejects a second row with the same identifier.
\<close>

definition insert_products ::
  "string \<Rightarrow> string \<Rightarrow> string \<Rightarrow> decimal \<Rightarrow> int \<Rightarrow> string \<Rightarrow> string \<Rightarrow> nat \<Rightarrow> database
     \<Rightarrow> error + database" where
  "insert_products k m c pr st e cat now d =
     bnd (adapt_text k) (\<lambda>_.
     bnd (adapt_text m) (\<lambda>_.
     bnd (adapt_text c) (\<lambda>_.
     bnd (adapt_text e) (\<lambda>_.
     bnd (adapt_text cat) (\<lambda>_.
     bnd (to_varchar_255 k) (\<lambda>k'.
     bnd (to_varchar_255 m) (\<lambda>m'.
     bnd (to_varchar_255 c) (\<lambda>c'.
     bnd (to_numeric_10_2 pr) (\<lambda>pr'.
     bnd (to_integer st) (\<lambda>st'.
     bnd (to_varchar_255 e) (\<lambda>e'.
     bnd (to_varchar_255 cat) (\<lambda>cat'.
       if k' \<in> set (map p_sku (products d)) then Inl UniqueViolation
       else Inr (d\<lparr>products := products d @
              [\<lparr>p_sku = k', p_model = m', p_color = c', current_price = pr',
                last_updated = now, p_stock_level = st', p_ean = e',
                category = cat'\<rparr>]\<rparr>)))))))))))))"

text \<open>
  \<^verbatim>\<open>INSERT INTO price_history (sku, price, stock_level)\<close>: \<^verbatim>\<open>timestamp\<close> takes its
  default, and the foreign key requires a \<^verbatim>\<open>products\<close> row with that identifier.
\<close>

definition insert_price_history ::
  "string \<Rightarrow> decimal \<Rightarrow> int \<Rightarrow> nat \<Rightarrow> database \<Rightarrow> error + database" where
  "insert_price_history k pr st now d =
     bnd (adapt_text k) (\<lambda>_.
     bnd (to_varchar_255 k) (\<lambda>k'.
     bnd (to_numeric_10_2 pr) (\<lambda>pr'.
     bnd (to_integer st) (\<lambda>st'.
       if k' \<notin> set (map p_sku (products d)) then Inl ForeignKeyViolation
       else Inr (d\<lparr>price_history := price_history d @
              [\<lparr>h_sku = k', h_price = pr', h_stock_level = st', h_timestamp = now\<rparr>]\<rparr>)))))"

text \<open>
  \<^verbatim>\<open>UPDATE products SET current_price = %s, stock_level = %s,
  last_updated = CURRENT_TIMESTAMP WHERE sku = %s\<close>.
\<close>

definition update_products ::
  "decimal \<Rightarrow> int \<Rightarrow> string \<Rightarrow> nat \<Rightarrow> database \<Rightarrow> error + database" where
  "update_products pr st k now d =
     bnd (adapt_text k) (\<lambda>_.
     bnd (to_numeric_10_2 pr) (\<lambda>pr'.
     bnd (to_integer st) (\<lambda>st'.
       Inr (d\<lparr>products :=
              map (\<lambda>r. if p_sku r = k
                       then r\<lparr>current_price := pr', p_stock_level := st', last_updated := now\<rparr>
                       else r) (products d)\<rparr>))))"

section \<open>The tracker\<close>

text \<open>
  The lines \<^verbatim>\<open>update_product\<close> and \<^verbatim>\<open>track_prices\<close> write to the logger, with the
  values their f-strings interpolate.
\<close>

datatype log_entry =
    Fetched nat
  | Added_new_product string
  | Price_change string decimal decimal
  | Error_updating_product string error
  | Failed_to_update_product string error
  | Completed

text \<open>
  The state \<^verbatim>\<open>update_product\<close> works on: the connection \<^verbatim>\<open>self.db_conn\<close> and the
  logger's output. The connection holds the tables as last committed and the tables as
  the open transaction sees them; statements act on the second, \<^verbatim>\<open>commit()\<close> makes
  them the first, \<^verbatim>\<open>rollback()\<close> discards them.
\<close>

record tracker =
  committed :: database
  working :: database
  log_lines :: "log_entry list"

type_synonym 'a action = "tracker \<Rightarrow> (error + 'a) \<times> tracker"

definition thn :: "'a action \<Rightarrow> ('a \<Rightarrow> 'b action) \<Rightarrow> 'b action" where
  "thn act f = (\<lambda>t. case act t of (Inl e, t') \<Rightarrow> (Inl e, t') | (Inr x, t') \<Rightarrow> f x t')"

definition lift :: "error + 'a \<Rightarrow> 'a action" where
  "lift r = (\<lambda>t. (r, t))"

definition execute :: "(database \<Rightarrow> error + database) \<Rightarrow> unit action" where
  "execute stmt = (\<lambda>t. case stmt (working t) of
                          Inl e \<Rightarrow> (Inl e, t)
                        | Inr d \<Rightarrow> (Inr (), t\<lparr>working := d\<rparr>))"

definition logger :: "log_entry \<Rightarrow> unit action" where
  "logger l = (\<lambda>t. (Inr (), t\<lparr>log_lines := log_lines t @ [l]\<rparr>))"

definition commit :: "unit action" where
  "commit = (\<lambda>t. (Inr (), t\<lparr>committed := working t\<rparr>))"

definition rollback :: "tracker \<Rightarrow> tracker" where
  "rollback t = t\<lparr>working := committed t\<rparr>"

text \<open>
  The \<^verbatim>\<open>try\<close> block of \<^verbatim>\<open>update_product\<close> (lines 68 to 124). \<open>now\<close> is the value
  of \<^verbatim>\<open>CURRENT_TIMESTAMP\<close> in the transaction. The \<^verbatim>\<open>SELECT\<close> of line 71 has the
  identifier as its parameter, which psycopg2 adapts before the query is sent.
\<close>

definition insert_new_product :: "nat \<Rightarrow> product \<Rightarrow> string \<Rightarrow> decimal \<Rightarrow> unit action" where
  "insert_new_product now p k new_price =
     thn (lift (getitem ''model'' (model p))) (\<lambda>m.
     thn (lift (getitem ''color'' (color p))) (\<lambda>c.
     thn (lift (getitem ''in_stock'' (in_stock p))) (\<lambda>st.
     thn (execute (insert_products k m c new_price st
                     (get_default (ean p) '''') (get_default (cat_name p) '''') now)) (\<lambda>_.
     thn (execute (insert_price_history k new_price st now)) (\<lambda>_.
     logger (Added_new_product k))))))"

definition update_existing_product ::
  "nat \<Rightarrow> product \<Rightarrow> string \<Rightarrow> decimal \<Rightarrow> decimal \<Rightarrow> unit action" where
  "update_existing_product now p k new_price cur_price =
     thn (lift (getitem ''in_stock'' (in_stock p))) (\<lambda>st.
     thn (execute (update_products new_price st k now)) (\<lambda>_.
     if dec_ne cur_price new_price
     then thn (execute (insert_price_history k new_price st now)) (\<lambda>_.
          logger (Price_change k cur_price new_price))
     else lift (Inr ())))"

definition update_product_try :: "nat \<Rightarrow> product \<Rightarrow> unit action" where
  "update_product_try now p =
     thn (lift (getitem ''sku'' (sku p))) (\<lambda>k.
     thn (lift (adapt_text k)) (\<lambda>_.
     thn (\<lambda>t. (Inr (select_current_price k (working t)), t)) (\<lambda>result.
     thn (lift (getitem ''price'' (price p))) (\<lambda>new_price.
     thn (case result of
            None \<Rightarrow> insert_new_product now p k new_price
          | Some cur_price \<Rightarrow> update_existing_product now p k new_price cur_price) (\<lambda>_.
     commit)))))"

text \<open>
  \<^verbatim>\<open>update_product\<close> with its \<^verbatim>\<open>except\<close> clause (lines 126 to 129): roll back, log
  the error with the item's identifier, re-raise. The log line reads
  \<^verbatim>\<open>product['sku']\<close> again, so for an item without that key it raises
  \<^verbatim>\<open>KeyError\<close> in place of writing the line. The function returns nothing; which
  branch it took shows in the tables and in the log: a line for a new product, a line
  for a price change, or no line.
\<close>

definition update_product :: "nat \<Rightarrow> product \<Rightarrow> unit action" where
  "update_product now p = (\<lambda>t.
     case update_product_try now p t of
       (Inr u, t') \<Rightarrow> (Inr u, t')
     | (Inl e, t') \<Rightarrow>
         (let t'' = rollback t' in
          case sku p of
            None \<Rightarrow> (Inl (KeyError ''sku''), t'')
          | Some k \<Rightarrow> (Inl e, t''\<lparr>log_lines := log_lines t'' @ [Error_updating_product k e]\<rparr>)))"

text \<open>
  The loop of \<^verbatim>\<open>track_prices\<close> (lines 141 to 146) over the fetched items, each paired
  with the time of its transaction: an exception of \<^verbatim>\<open>update_product\<close> is logged
  and the loop goes on.
\<close>

fun update_each :: "(nat \<times> product) list \<Rightarrow> tracker \<Rightarrow> tracker" where
  "update_each [] t = t"
| "update_each ((now, p) # ps) t =
     (case update_product now p t of
        (Inr _, t') \<Rightarrow> update_each ps t'
      | (Inl e, t') \<Rightarrow>
          update_each ps
            (t'\<lparr>log_lines := log_lines t' @
                  [Failed_to_update_product (get_default (sku p) ''unknown'') e]\<rparr>))"

text \<open>
  \<^verbatim>\<open>track_prices\<close> from line 136 on, given the list found under \<^verbatim>\<open>'stock'\<close> in the
  response. The HTTP request before it and the closing of the connection after it are
  outside the model.
\<close>

definition track_prices :: "(nat \<times> product) list \<Rightarrow> tracker \<Rightarrow> tracker" where
  "track_prices ps t =
     (let t1 = t\<lparr>log_lines := log_lines t @ [Fetched (length ps)]\<rparr>;
          t2 = update_each ps t1
      in t2\<lparr>log_lines := log_lines t2 @ [Completed]\<rparr>)"

text \<open>No transaction is open: the connection sees exactly the committed tables.\<close>

definition idle :: "tracker \<Rightarrow> bool" where
  "idle t \<longleftrightarrow> working t = committed t"

text \<open>
  Two trackers hold the same tables when they differ at most in the log. An action
  respects the tables when its result and the tables it leaves depend on the tables it
  finds, not on the log. (Used to compare two runs of the loop.)
\<close>

definition same_tables :: "tracker \<Rightarrow> tracker \<Rightarrow> bool" where
  "same_tables t1 t2 \<longleftrightarrow> committed t1 = committed t2 \<and> working t1 = working t2"

definition respects_tables :: "'a action \<Rightarrow> bool" where
  "respects_tables act \<longleftrightarrow>
     (\<forall>t1 t2. same_tables t1 t2 \<longrightarrow>
        fst (act t1) = fst (act t2) \<and> same_tables (snd (act t1)) (snd (act t2)))"

text \<open>
  The batch driver in the words of the specification: for each item in order, invoke the
  reconciler on the tables; an item whose reconciliation fails leaves the tables as they
  were, and the next item is taken up. (To be compared with the loop of
  \<^verbatim>\<open>track_prices\<close>.)
\<close>

definition on_tables :: "database \<Rightarrow> tracker" where
  "on_tables d = \<lparr>committed = d, working = d, log_lines = []\<rparr>"

fun reconcile_in_order :: "(nat \<times> product) list \<Rightarrow> database \<Rightarrow> database" where
  "reconcile_in_order [] d = d"
| "reconcile_in_order ((now, p) # ps) d =
     (case update_product now p (on_tables d) of
        (Inr _, t') \<Rightarrow> reconcile_in_order ps (committed t')
      | (Inl _, _) \<Rightarrow> reconcile_in_order ps d)"

text \<open>
  A string that psycopg2 adapts and a \<^verbatim>\<open>VARCHAR(255)\<close> column takes: no NUL, and
  nothing but blanks beyond the 255th character.
\<close>

definition text_ok :: "string \<Rightarrow> bool" where
  "text_ok s \<longleftrightarrow> CHR 0x00 \<notin> set s \<and> list_all (\<lambda>c. c = CHR '' '') (drop 255 s)"

section \<open>Example states and items\<close>

text \<open>
  An item record with the five required keys and neither optional one, the rows
  \<^verbatim>\<open>update_product\<close> writes for the identifier \<^verbatim>\<open>SKU1\<close>, and a tracker with no
  transaction open. \<open>connected\<close> is the tracker on the tables as \<^verbatim>\<open>create_tables\<close>
  leaves them; \<open>seen_once q n\<close> is the tracker after the first observation of
  \<^verbatim>\<open>SKU1\<close> at time 1, stored at \<open>q\<close> hundredths with \<open>n\<close> in stock.
\<close>

definition observation :: "string \<Rightarrow> decimal \<Rightarrow> int \<Rightarrow> product" where
  "observation k d n =
     \<lparr>sku = Some k, model = Some ''M1'', color = Some ''black'', price = Some d,
      in_stock = Some n, ean = None, cat_name = None\<rparr>"

definition sku1_row :: "numeric_10_2 \<Rightarrow> int \<Rightarrow> nat \<Rightarrow> products_row" where
  "sku1_row q n ts =
     \<lparr>p_sku = ''SKU1'', p_model = ''M1'', p_color = ''black'', current_price = q,
      last_updated = ts, p_stock_level = n, p_ean = '''', category = ''''\<rparr>"

definition sku1_entry :: "numeric_10_2 \<Rightarrow> int \<Rightarrow> nat \<Rightarrow> price_history_row" where
  "sku1_entry q n ts = \<lparr>h_sku = ''SKU1'', h_price = q, h_stock_level = n, h_timestamp = ts\<rparr>"

definition tracking ::
  "products_row list \<Rightarrow> price_history_row list \<Rightarrow> log_entry list \<Rightarrow> tracker" where
  "tracking ps hs ls =
     \<lparr>committed = \<lparr>products = ps, price_history = hs\<rparr>,
      working = \<lparr>products = ps, price_history = hs\<rparr>,
      log_lines = ls\<rparr>"

definition connected :: tracker where
  "connected = tracking [] [] []"

definition seen_once :: "numeric_10_2 \<Rightarrow> int \<Rightarrow> tracker" where
  "seen_once q n = tracking [sku1_row q n 1] [sku1_entry q n 1] [Added_new_product ''SKU1'']"

text \<open>
  An identifier of 256 characters, the last 252 of them blanks, and its first 255
  characters.
\<close>

definition padded_sku :: string where
  "padded_sku = ''SKU1'' @ replicate 252 (CHR '' '')"

definition padded_sku_stored :: string where
  "padded_sku_stored = ''SKU1'' @ replicate 251 (CHR '' '')"

section \<open>Basic facts about the statements\<close>

lemma bnd_simps [simp]: "bnd (Inl e) f = Inl e" "bnd (Inr x) f = f x"
  by (simp_all add: bnd_def)

lemma getitem_simps [simp]:
  "getitem key None = Inl (KeyError key)" "getitem key (Some x) = Inr x"
  by (simp_all add: getitem_def)

lemma bnd_Inr_iff: "bnd r f = Inr y \<longleftrightarrow> (\<exists>x. r = Inr x \<and> f x = Inr y)"
  by (cases r) simp_all

lemma to_varchar_255_Inr:
  "to_varchar_255 s = Inr s' \<longleftrightarrow>
     s' = take 255 s \<and> list_all (\<lambda>c. c = CHR '' '') (drop 255 s)"
  by (auto simp: to_varchar_255_def)

lemma to_numeric_10_2_Inr:
  "to_numeric_10_2 d = Inr q \<longleftrightarrow>
     q = quantize2 d \<and> places d \<le> 16383 \<and> \<bar>quantize2 d\<bar> < 10 ^ 10"
  by (auto simp: to_numeric_10_2_def Let_def)

lemma to_integer_Inr: "to_integer n = Inr n' \<longleftrightarrow> n' = n \<and> - (2 ^ 31) \<le> n \<and> n < 2 ^ 31"
  by (auto simp: to_integer_def)

lemma adapt_text_Inr: "adapt_text s = Inr s' \<longleftrightarrow> s' = s \<and> CHR 0x00 \<notin> set s"
  by (auto simp: adapt_text_def)

lemma adapt_text_Inl: "adapt_text s = Inl e \<longleftrightarrow> e = ValueError \<and> CHR 0x00 \<in> set s"
  by (auto simp: adapt_text_def)

lemmas column_Inr = to_varchar_255_Inr to_numeric_10_2_Inr to_integer_Inr adapt_text_Inr

lemma insert_products_Inr:
  "insert_products k m c d n e cat now db = Inr db' \<longleftrightarrow>
     text_ok k \<and> text_ok m \<and> text_ok c \<and> text_ok e \<and> text_ok cat \<and>
     places d \<le> 16383 \<and> \<bar>quantize2 d\<bar> < 10 ^ 10 \<and> - (2 ^ 31) \<le> n \<and> n < 2 ^ 31 \<and>
     take 255 k \<notin> set (map p_sku (products db)) \<and>
     db' = db\<lparr>products := products db @
              [\<lparr>p_sku = take 255 k, p_model = take 255 m, p_color = take 255 c,
                current_price = quantize2 d, last_updated = now, p_stock_level = n,
                p_ean = take 255 e, category = take 255 cat\<rparr>]\<rparr>"
  unfolding insert_products_def bnd_Inr_iff column_Inr text_ok_def by auto

lemma insert_price_history_Inr:
  "insert_price_history k d n now db = Inr db' \<longleftrightarrow>
     text_ok k \<and> places d \<le> 16383 \<and> \<bar>quantize2 d\<bar> < 10 ^ 10 \<and>
     - (2 ^ 31) \<le> n \<and> n < 2 ^ 31 \<and>
     take 255 k \<in> set (map p_sku (products db)) \<and>
     db' = db\<lparr>price_history := price_history db @
              [\<lparr>h_sku = take 255 k, h_price = quantize2 d, h_stock_level = n,
                h_timestamp = now\<rparr>]\<rparr>"
  unfolding insert_price_history_def bnd_Inr_iff column_Inr text_ok_def by auto

lemma update_products_Inr:
  "update_products d n k now db = Inr db' \<longleftrightarrow>
     CHR 0x00 \<notin> set k \<and> places d \<le> 16383 \<and> \<bar>quantize2 d\<bar> < 10 ^ 10 \<and>
     - (2 ^ 31) \<le> n \<and> n < 2 ^ 31 \<and>
     db' = db\<lparr>products := map (\<lambda>r. if p_sku r = k
                       then r\<lparr>current_price := quantize2 d, p_stock_level := n, last_updated := now\<rparr>
                       else r) (products db)\<rparr>"
  unfolding update_products_def bnd_Inr_iff column_Inr by auto

lemma select_None_iff:
  "select_current_price k d = None \<longleftrightarrow>
     255 < length k \<or> k \<notin> set (map p_sku (products d))"
  by (auto simp: select_current_price_def find_None_iff)

lemma select_Some_places:
  "select_current_price k d = Some cur \<Longrightarrow> cur = Decimal (coefficient cur) 2"
  by (auto simp: select_current_price_def from_numeric_10_2_def split: if_splits)

lemma select_Some_length:
  "select_current_price k d = Some cur \<Longrightarrow> length k \<le> 255"
  by (auto simp: select_current_price_def split: if_splits)

lemma text_ok_short: "length s \<le> 255 \<Longrightarrow> text_ok s \<longleftrightarrow> CHR 0x00 \<notin> set s"
  by (simp add: text_ok_def)

lemma find_sku_append:
  "k \<notin> set (map p_sku rows) \<Longrightarrow> p_sku r = k \<Longrightarrow>
   find (\<lambda>r. p_sku r = k) (rows @ [r]) = Some r"
  by (induction rows) auto

lemma find_sku_update:
  "find (\<lambda>r. p_sku r = k) (map (\<lambda>r. if p_sku r = k
       then r\<lparr>current_price := q, p_stock_level := n, last_updated := ts\<rparr> else r) rows) =
   map_option (\<lambda>r. r\<lparr>current_price := q, p_stock_level := n, last_updated := ts\<rparr>)
     (find (\<lambda>r. p_sku r = k) rows)"
  by (induction rows) auto

lemma map_sku_update_comp:
  "map (p_sku \<circ> (\<lambda>r. if p_sku r = k
       then r\<lparr>current_price := q, p_stock_level := n, last_updated := ts\<rparr> else r)) rows =
   map p_sku rows"
  by (induction rows) simp_all

lemma filter_sku_update:
  "k' \<noteq> k \<Longrightarrow>
   filter (\<lambda>r. p_sku r = k') (map (\<lambda>r. if p_sku r = k
       then r\<lparr>current_price := q, p_stock_level := n, last_updated := ts\<rparr> else r) rows) =
   filter (\<lambda>r. p_sku r = k') rows"
  by (induction rows) simp_all

section \<open>Basic facts about the actions\<close>

lemma thn_Inr_iff:
  "thn act f t = (Inr y, t') \<longleftrightarrow> (\<exists>x t1. act t = (Inr x, t1) \<and> f x t1 = (Inr y, t'))"
  by (auto simp: thn_def split: prod.splits sum.splits)

lemma thn_Inl_iff:
  "thn act f t = (Inl e, t') \<longleftrightarrow>
     act t = (Inl e, t') \<or> (\<exists>x t1. act t = (Inr x, t1) \<and> f x t1 = (Inl e, t'))"
  by (auto simp: thn_def split: prod.splits sum.splits)

lemma lift_iff: "lift r t = (r', t') \<longleftrightarrow> r = r' \<and> t' = t"
  by (auto simp: lift_def)

lemma getitem_Inr_iff: "getitem key v = Inr x \<longleftrightarrow> v = Some x"
  by (cases v) simp_all

lemma getitem_Inl_iff: "getitem key v = Inl e \<longleftrightarrow> v = None \<and> e = KeyError key"
  by (cases v) auto

lemma execute_Inr_iff:
  "execute stmt t = (Inr u, t') \<longleftrightarrow> (\<exists>d. stmt (working t) = Inr d \<and> t' = t\<lparr>working := d\<rparr>)"
  by (auto simp: execute_def split: sum.splits)

lemma execute_Inl_iff:
  "execute stmt t = (Inl e, t') \<longleftrightarrow> stmt (working t) = Inl e \<and> t' = t"
  by (auto simp: execute_def split: sum.splits)

lemma logger_iff:
  "logger l t = (r, t') \<longleftrightarrow> r = Inr () \<and> t' = t\<lparr>log_lines := log_lines t @ [l]\<rparr>"
  by (auto simp: logger_def)

lemma commit_iff:
  "commit t = (r, t') \<longleftrightarrow> r = Inr () \<and> t' = t\<lparr>committed := working t\<rparr>"
  by (auto simp: commit_def)

lemmas action_iffs = thn_Inr_iff thn_Inl_iff lift_iff getitem_Inr_iff getitem_Inl_iff
  execute_Inr_iff execute_Inl_iff logger_iff commit_iff

lemma thn_lift_simps [simp]:
  "thn (lift (Inl e)) f t = (Inl e, t)" "thn (lift (Inr x)) f t = f x t"
  by (simp_all add: thn_def lift_def)

lemma thn_select [simp]: "thn (\<lambda>t. (Inr (g t), t)) f t = f (g t) t"
  by (simp add: thn_def)

lemma thn_Inl_result: "act t = (Inl e, t1) \<Longrightarrow> thn act f t = (Inl e, t1)"
  by (simp add: thn_def)

section \<open>Decimal comparison and rounding\<close>

lemma dec_eq_iff_val: "dec_eq x y \<longleftrightarrow> dec_val x = dec_val y"
proof (cases x; cases y)
  fix a m b n
  assume xy: "x = Decimal a m" "y = Decimal b n"
  have "(of_int a / 10 ^ m = (of_int b / 10 ^ n :: rat)) \<longleftrightarrow>
        (of_int a * 10 ^ n = (of_int b * 10 ^ m :: rat))"
    by (simp add: field_simps)
  also have "\<dots> \<longleftrightarrow> (of_int (a * 10 ^ n) = (of_int (b * 10 ^ m) :: rat))"
    by simp
  also have "\<dots> \<longleftrightarrow> a * 10 ^ n = b * 10 ^ m"
    by (rule of_int_eq_iff)
  finally show ?thesis using xy by simp
qed

lemma dec_ne_iff_val: "dec_ne x y \<longleftrightarrow> dec_val x \<noteq> dec_val y"
  by (simp add: dec_ne_def dec_eq_iff_val)

lemma round_half_exact:
  fixes q :: int and P :: int
  assumes "0 < P"
  shows "(2 * (\<bar>q\<bar> * P) + P) div (2 * P) = \<bar>q\<bar>"
proof -
  have "2 * (\<bar>q\<bar> * P) + P = P + \<bar>q\<bar> * (2 * P)"
    by (simp add: algebra_simps)
  also have "\<dots> div (2 * P) = \<bar>q\<bar> + P div (2 * P)"
    using assms by (subst div_mult_self1) simp_all
  also have "P div (2 * P) = 0"
    using assms by (intro div_pos_pos_trivial) simp_all
  finally show ?thesis by simp
qed

lemma quantize2_exact:
  assumes "dec_eq (Decimal q 2) d"
  shows "quantize2 d = q"
proof (cases d)
  case (Decimal a m)
  let ?P = "(10::int) ^ m"
  have P: "0 < ?P" by simp
  from assms Decimal have eq: "q * ?P = a * 100" by simp
  then have abs_eq: "\<bar>a\<bar> * 100 = \<bar>q\<bar> * ?P"
    by (metis abs_mult abs_numeral abs_of_pos P)
  have sgn_eq: "sgn a = sgn q"
  proof -
    have "sgn (q * ?P) = sgn (a * 100)" using eq by simp
    then show ?thesis using P by (simp add: sgn_mult)
  qed
  have num: "2 * \<bar>a\<bar> * 100 + ?P = 2 * (\<bar>q\<bar> * ?P) + ?P" using abs_eq by simp
  have "(2 * \<bar>a\<bar> * 100 + ?P) div (2 * ?P) = \<bar>q\<bar>"
    unfolding num by (rule round_half_exact [OF P])
  then have "quantize2 d = sgn q * \<bar>q\<bar>"
    unfolding Decimal quantize2.simps sgn_eq by (rule arg_cong)
  then show ?thesis by (simp add: mult_sgn_abs)
qed

section \<open>The paths through \<^verbatim>\<open>update_product\<close>\<close>

lemma insert_new_product_Inr:
  "insert_new_product now p k d t = (Inr u, t') \<longleftrightarrow>
     (\<exists>m c n db1 db2. model p = Some m \<and> color p = Some c \<and> in_stock p = Some n \<and>
        insert_products k m c d n (get_default (ean p) '''') (get_default (cat_name p) '''') now
          (working t) = Inr db1 \<and>
        insert_price_history k d n now db1 = Inr db2 \<and>
        t' = t\<lparr>working := db2, log_lines := log_lines t @ [Added_new_product k]\<rparr>)"
  unfolding insert_new_product_def by (auto simp: action_iffs)

lemma insert_new_product_Inl:
  "insert_new_product now p k d t = (Inl e, t') \<Longrightarrow>
     committed t' = committed t \<and> log_lines t' = log_lines t"
  unfolding insert_new_product_def by (auto simp: action_iffs)

lemma update_existing_product_changed:
  "dec_ne cur d \<Longrightarrow>
   update_existing_product now p k d cur t = (Inr u, t') \<longleftrightarrow>
     (\<exists>n db1 db2. in_stock p = Some n \<and> update_products d n k now (working t) = Inr db1 \<and>
        insert_price_history k d n now db1 = Inr db2 \<and>
        t' = t\<lparr>working := db2, log_lines := log_lines t @ [Price_change k cur d]\<rparr>)"
  unfolding update_existing_product_def by (auto simp: action_iffs)

lemma update_existing_product_unchanged:
  "\<not> dec_ne cur d \<Longrightarrow>
   update_existing_product now p k d cur t = (Inr u, t') \<longleftrightarrow>
     (\<exists>n db1. in_stock p = Some n \<and> update_products d n k now (working t) = Inr db1 \<and>
        t' = t\<lparr>working := db1\<rparr>)"
  unfolding update_existing_product_def by (auto simp: action_iffs)

lemma update_existing_product_Inl:
  "update_existing_product now p k d cur t = (Inl e, t') \<Longrightarrow>
     committed t' = committed t \<and> log_lines t' = log_lines t"
  unfolding update_existing_product_def
  by (auto simp: action_iffs split: if_splits)

lemma update_product_try_Inl:
  "update_product_try now p t = (Inl e, t') \<Longrightarrow>
     committed t' = committed t \<and> log_lines t' = log_lines t \<and> (sku p = None \<longrightarrow> e = KeyError ''sku'')"
  unfolding update_product_try_def
  by (auto simp: action_iffs dest: insert_new_product_Inl update_existing_product_Inl split: option.splits)

lemma update_product_try_new:
  "sku p = Some k \<Longrightarrow> select_current_price k (working t) = None \<Longrightarrow>
   update_product_try now p t = (Inr u, t') \<longleftrightarrow>
     (CHR 0x00 \<notin> set k \<and>
      (\<exists>d t1. price p = Some d \<and> insert_new_product now p k d t = (Inr (), t1) \<and>
         t' = t1\<lparr>committed := working t1\<rparr>))"
  unfolding update_product_try_def
  by (auto simp: action_iffs adapt_text_Inr)

lemma update_product_try_existing:
  "sku p = Some k \<Longrightarrow> select_current_price k (working t) = Some cur \<Longrightarrow>
   update_product_try now p t = (Inr u, t') \<longleftrightarrow>
     (CHR 0x00 \<notin> set k \<and>
      (\<exists>d t1. price p = Some d \<and> update_existing_product now p k d cur t = (Inr (), t1) \<and>
         t' = t1\<lparr>committed := working t1\<rparr>))"
  unfolding update_product_try_def
  by (auto simp: action_iffs adapt_text_Inr)

lemma update_product_try_sku:
  "update_product_try now p t = (Inr u, t') \<Longrightarrow> \<exists>k. sku p = Some k"
  unfolding update_product_try_def
  by (auto simp: action_iffs)

lemma update_product_Inr:
  "update_product now p t = (Inr u, t') \<longleftrightarrow> update_product_try now p t = (Inr u, t')"
  by (auto simp: update_product_def Let_def split: prod.splits sum.splits option.splits)

lemma update_product_Inl:
  "update_product now p t = (Inl e, t') \<Longrightarrow>
     committed t' = committed t \<and> working t' = committed t \<and>
     log_lines t' = (case sku p of None \<Rightarrow> log_lines t
                     | Some k \<Rightarrow> log_lines t @ [Error_updating_product k e]) \<and>
     (sku p = None \<longrightarrow> e = KeyError ''sku'')"
  by (auto simp: update_product_def Let_def rollback_def dest!: update_product_try_Inl split: prod.splits sum.splits option.splits)

lemma update_product_new:
  assumes "update_product now p t = (Inr u, t')" "sku p = Some k"
    and "select_current_price k (working t) = None"
  shows "\<exists>m c d n. model p = Some m \<and> color p = Some c \<and> price p = Some d \<and>
     in_stock p = Some n \<and>
     working t' = (working t)\<lparr>products := products (working t) @
        [\<lparr>p_sku = take 255 k, p_model = take 255 m, p_color = take 255 c,
          current_price = quantize2 d, last_updated = now, p_stock_level = n,
          p_ean = take 255 (get_default (ean p) ''''),
          category = take 255 (get_default (cat_name p) '''')\<rparr>],
        price_history := price_history (working t) @
        [\<lparr>h_sku = take 255 k, h_price = quantize2 d, h_stock_level = n,
          h_timestamp = now\<rparr>]\<rparr> \<and>
     committed t' = working t' \<and>
     log_lines t' = log_lines t @ [Added_new_product k] \<and>
     take 255 k \<notin> set (map p_sku (products (working t)))"
proof -
  from assms(1) have "update_product_try now p t = (Inr u, t')"
    by (simp add: update_product_Inr)
  then obtain d t1 where d: "price p = Some d"
    and t1: "insert_new_product now p k d t = (Inr (), t1)"
    and t': "t' = t1\<lparr>committed := working t1\<rparr>"
    unfolding update_product_try_new [OF assms(2,3)] by blast
  from t1 obtain m c n db1 db2 where f: "model p = Some m" "color p = Some c" "in_stock p = Some n"
    and db1: "insert_products k m c d n (get_default (ean p) '''') (get_default (cat_name p) '''')
                now (working t) = Inr db1"
    and db2: "insert_price_history k d n now db1 = Inr db2"
    and t1': "t1 = t\<lparr>working := db2, log_lines := log_lines t @ [Added_new_product k]\<rparr>"
    unfolding insert_new_product_Inr by blast
  from db1 have db1': "db1 = (working t)\<lparr>products := products (working t) @
        [\<lparr>p_sku = take 255 k, p_model = take 255 m, p_color = take 255 c,
          current_price = quantize2 d, last_updated = now, p_stock_level = n,
          p_ean = take 255 (get_default (ean p) ''''),
          category = take 255 (get_default (cat_name p) '''')\<rparr>]\<rparr>"
    and fresh: "take 255 k \<notin> set (map p_sku (products (working t)))"
    unfolding insert_products_Inr by blast+
  from db2 have db2': "db2 = db1\<lparr>price_history := price_history db1 @
        [\<lparr>h_sku = take 255 k, h_price = quantize2 d, h_stock_level = n,
          h_timestamp = now\<rparr>]\<rparr>"
    unfolding insert_price_history_Inr by blast
  have "working t' = (working t)\<lparr>products := products (working t) @
        [\<lparr>p_sku = take 255 k, p_model = take 255 m, p_color = take 255 c,
          current_price = quantize2 d, last_updated = now, p_stock_level = n,
          p_ean = take 255 (get_default (ean p) ''''),
          category = take 255 (get_default (cat_name p) '''')\<rparr>],
        price_history := price_history (working t) @
        [\<lparr>h_sku = take 255 k, h_price = quantize2 d, h_stock_level = n,
          h_timestamp = now\<rparr>]\<rparr>"
    by (simp add: t' t1' db2' db1')
  moreover have "committed t' = working t'" by (simp add: t')
  moreover have "log_lines t' = log_lines t @ [Added_new_product k]" by (simp add: t' t1')
  ultimately show ?thesis using f d fresh by blast
qed

lemma update_product_existing:
  assumes "update_product now p t = (Inr u, t')" "sku p = Some k"
    and "select_current_price k (working t) = Some cur"
  shows "\<exists>d n. price p = Some d \<and> in_stock p = Some n \<and>
     products (working t') =
       map (\<lambda>r. if p_sku r = k
                then r\<lparr>current_price := quantize2 d, p_stock_level := n, last_updated := now\<rparr>
                else r) (products (working t)) \<and>
     price_history (working t') =
       (if dec_ne cur d
        then price_history (working t) @
          [\<lparr>h_sku = k, h_price = quantize2 d, h_stock_level = n, h_timestamp = now\<rparr>]
        else price_history (working t)) \<and>
     committed t' = working t' \<and>
     log_lines t' =
       (if dec_ne cur d then log_lines t @ [Price_change k cur d] else log_lines t)"
proof -
  from assms(3) have "length k \<le> 255" by (rule select_Some_length)
  then have short: "take 255 k = k" by simp
  from assms(1) have "update_product_try now p t = (Inr u, t')"
    by (simp add: update_product_Inr)
  then obtain d t1 where d: "price p = Some d"
    and t1: "update_existing_product now p k d cur t = (Inr (), t1)"
    and t': "t' = t1\<lparr>committed := working t1\<rparr>"
    unfolding update_product_try_existing [OF assms(2,3)] by blast
  have c: "committed t' = working t'" by (simp add: t')
  show ?thesis
  proof (cases "dec_ne cur d")
    case True
    from t1 obtain n db1 db2 where n: "in_stock p = Some n"
      and db1: "update_products d n k now (working t) = Inr db1"
      and db2: "insert_price_history k d n now db1 = Inr db2"
      and t1': "t1 = t\<lparr>working := db2, log_lines := log_lines t @ [Price_change k cur d]\<rparr>"
      unfolding update_existing_product_changed [OF True] by blast
    from db1 have db1': "db1 = (working t)\<lparr>products := map (\<lambda>r. if p_sku r = k
                then r\<lparr>current_price := quantize2 d, p_stock_level := n, last_updated := now\<rparr>
                else r) (products (working t))\<rparr>"
      unfolding update_products_Inr by blast
    from db2 have db2': "db2 = db1\<lparr>price_history := price_history db1 @
        [\<lparr>h_sku = k, h_price = quantize2 d, h_stock_level = n, h_timestamp = now\<rparr>]\<rparr>"
      unfolding insert_price_history_Inr short by blast
    have "products (working t') = map (\<lambda>r. if p_sku r = k
                then r\<lparr>current_price := quantize2 d, p_stock_level := n, last_updated := now\<rparr>
                else r) (products (working t))"
      by (simp add: t' t1' db2' db1')
    moreover have "price_history (working t') = price_history (working t) @
          [\<lparr>h_sku = k, h_price = quantize2 d, h_stock_level = n, h_timestamp = now\<rparr>]"
      by (simp add: t' t1' db2' db1')
    moreover have "log_lines t' = log_lines t @ [Price_change k cur d]"
      by (simp add: t' t1')
    ultimately show ?thesis using d n c True by simp
  next
    case False
    from t1 obtain n db1 where n: "in_stock p = Some n"
      and db1: "update_products d n k now (working t) = Inr db1"
      and t1': "t1 = t\<lparr>working := db1\<rparr>"
      unfolding update_existing_product_unchanged [OF False] by blast
    from db1 have db1': "db1 = (working t)\<lparr>products := map (\<lambda>r. if p_sku r = k
                then r\<lparr>current_price := quantize2 d, p_stock_level := n, last_updated := now\<rparr>
                else r) (products (working t))\<rparr>"
      unfolding update_products_Inr by blast
    have "products (working t') = map (\<lambda>r. if p_sku r = k
                then r\<lparr>current_price := quantize2 d, p_stock_level := n, last_updated := now\<rparr>
                else r) (products (working t))"
      by (simp add: t' t1' db1')
    moreover have "price_history (working t') = price_history (working t)"
      by (simp add: t' t1' db1')
    moreover have "log_lines t' = log_lines t"
      by (simp add: t' t1')
    ultimately show ?thesis using d n c False by simp
  qed
qed

lemma update_product_cases:
  assumes "update_product now p t = (r, t')"
  obtains (failed) e where "r = Inl e" "committed t' = committed t" "working t' = committed t"
  | (new) k where "r = Inr ()" "sku p = Some k" "select_current_price k (working t) = None"
  | (existing) k cur where "r = Inr ()" "sku p = Some k"
      "select_current_price k (working t) = Some cur"
proof (cases r)
  case (Inl e)
  with assms update_product_Inl [of now p t e t'] failed show ?thesis by blast
next
  case (Inr u)
  with assms update_product_Inr [of now p t u t'] update_product_try_sku [of now p t u t']
  obtain k where k: "sku p = Some k" by blast
  from Inr have r: "r = Inr ()" by simp
  show ?thesis
  proof (cases "select_current_price k (working t)")
    case None
    with r k new show ?thesis by blast
  next
    case (Some cur)
    with r k existing show ?thesis by blast
  qed
qed

lemma update_product_idle:
  assumes "update_product now p t = (r, t')"
  shows "idle t'"
  using assms
proof (cases rule: update_product_cases)
  case (failed e)
  then show ?thesis by (simp add: idle_def)
next
  case (new k)
  with assms update_product_new [of now p t "()" t' k] show ?thesis
    by (auto simp: idle_def)
next
  case (existing k cur)
  with assms update_product_existing [of now p t "()" t' k cur] show ?thesis
    by (auto simp: idle_def)
qed

lemma update_product_new_succeeds:
  assumes "sku p = Some k" and "model p = Some m" and "color p = Some c"
    and "price p = Some d" and "in_stock p = Some n"
    and "select_current_price k (working t) = None"
    and "length k \<le> 255" and "text_ok k" and "text_ok m" and "text_ok c"
    and "places d \<le> 16383" and "\<bar>quantize2 d\<bar> < 10 ^ 10"
    and "- (2 ^ 31) \<le> n" and "n < 2 ^ 31"
    and "text_ok (get_default (ean p) '''')"
    and "text_ok (get_default (cat_name p) '''')"
  shows "\<exists>t'. update_product now p t = (Inr (), t')"
proof -
  let ?row = "\<lparr>p_sku = take 255 k, p_model = take 255 m, p_color = take 255 c,
          current_price = quantize2 d, last_updated = now, p_stock_level = n,
          p_ean = take 255 (get_default (ean p) ''''),
          category = take 255 (get_default (cat_name p) '''')\<rparr>"
  let ?db1 = "(working t)\<lparr>products := products (working t) @ [?row]\<rparr>"
  let ?db2 = "?db1\<lparr>price_history := price_history ?db1 @
        [\<lparr>h_sku = take 255 k, h_price = quantize2 d, h_stock_level = n,
          h_timestamp = now\<rparr>]\<rparr>"
  let ?t1 = "t\<lparr>working := ?db2, log_lines := log_lines t @ [Added_new_product k]\<rparr>"
  from assms(6,7) have fresh: "take 255 k \<notin> set (map p_sku (products (working t)))"
    by (simp add: select_None_iff)
  from assms(8) have nul: "CHR 0x00 \<notin> set k" by (simp add: text_ok_def)
  have db1: "insert_products k m c d n (get_default (ean p) '''') (get_default (cat_name p) '''')
               now (working t) = Inr ?db1"
    unfolding insert_products_Inr using assms(8-16) fresh by simp
  have db2: "insert_price_history k d n now ?db1 = Inr ?db2"
    unfolding insert_price_history_Inr using assms(8,11-14) by simp
  have "insert_new_product now p k d t = (Inr (), ?t1)"
    unfolding insert_new_product_Inr using assms(2,3,5) db1 db2 by blast
  then have "update_product_try now p t = (Inr (), ?t1\<lparr>committed := working ?t1\<rparr>)"
    unfolding update_product_try_new [OF assms(1,6)] using assms(4) nul by blast
  then show ?thesis
    unfolding update_product_Inr by blast
qed

lemma insert_new_product_missing_key:
  assumes "model p = None \<or> color p = None \<or> in_stock p = None"
  shows "\<exists>key. insert_new_product now p k d t = (Inl (KeyError key), t)"
  using assms unfolding insert_new_product_def
  by (cases "model p"; cases "color p"; cases "in_stock p") simp_all

lemma update_existing_product_missing_key:
  assumes "in_stock p = None"
  shows "update_existing_product now p k d cur t = (Inl (KeyError ''in_stock''), t)"
  using assms unfolding update_existing_product_def by simp

lemma update_product_try_missing_key:
  assumes "sku p = None \<or> price p = None \<or> in_stock p = None \<or>
           (\<exists>k. sku p = Some k \<and> select_current_price k (working t) = None \<and>
                (model p = None \<or> color p = None))"
  shows "\<exists>e. update_product_try now p t = (Inl e, t) \<and>
           ((\<exists>key. e = KeyError key) \<or>
            e = ValueError \<and> (\<exists>k. sku p = Some k \<and> CHR 0x00 \<in> set k))"
proof (cases "sku p")
  case None
  then show ?thesis unfolding update_product_try_def by simp
next
  case k: (Some k)
  show ?thesis
  proof (cases "CHR 0x00 \<in> set k")
    case True
    with k show ?thesis unfolding update_product_try_def by (simp add: adapt_text_def)
  next
    case nul: False
    show ?thesis
    proof (cases "price p")
      case None
      with k nul show ?thesis unfolding update_product_try_def by (simp add: adapt_text_def)
    next
      case d: (Some d)
      show ?thesis
      proof (cases "select_current_price k (working t)")
        case None
        with assms k d have "model p = None \<or> color p = None \<or> in_stock p = None" by auto
        from insert_new_product_missing_key [OF this, of now k d t]
        obtain key where "insert_new_product now p k d t = (Inl (KeyError key), t)" by blast
        then have "thn (insert_new_product now p k d) (\<lambda>_. commit) t = (Inl (KeyError key), t)"
          by (rule thn_Inl_result)
        with k d nul None show ?thesis
          unfolding update_product_try_def by (simp add: adapt_text_def)
      next
        case (Some cur)
        with assms k d have "in_stock p = None" by auto
        then have "update_existing_product now p k d cur t = (Inl (KeyError ''in_stock''), t)"
          by (rule update_existing_product_missing_key)
        then have "thn (update_existing_product now p k d cur) (\<lambda>_. commit) t =
                     (Inl (KeyError ''in_stock''), t)"
          by (rule thn_Inl_result)
        with k d nul Some show ?thesis
          unfolding update_product_try_def by (simp add: adapt_text_def)
      qed
    qed
  qed
qed

lemma update_product_missing_key:
  assumes "sku p = None \<or> price p = None \<or> in_stock p = None \<or>
           (\<exists>k. sku p = Some k \<and> select_current_price k (working t) = None \<and>
                (model p = None \<or> color p = None))"
  shows "(\<exists>key. fst (update_product now p t) = Inl (KeyError key)) \<or>
         fst (update_product now p t) = Inl ValueError \<and>
         (\<exists>k. sku p = Some k \<and> CHR 0x00 \<in> set k)"
proof -
  from update_product_try_missing_key [OF assms, of now]
  obtain e where "update_product_try now p t = (Inl e, t)"
    and "(\<exists>key. e = KeyError key) \<or>
         e = ValueError \<and> (\<exists>k. sku p = Some k \<and> CHR 0x00 \<in> set k)" by blast
  then show ?thesis
    by (cases "sku p") (auto simp: update_product_def Let_def)
qed

lemma success_bounds:
  assumes "update_product now p t = (Inr (), t')" and "price p = Some d"
  shows "places d \<le> 16383 \<and> \<bar>quantize2 d\<bar> < 10 ^ 10 \<and>
         (\<exists>n. in_stock p = Some n \<and> - (2 ^ 31) \<le> n \<and> n < 2 ^ 31) \<and>
         (\<exists>k. sku p = Some k \<and> CHR 0x00 \<notin> set k)"
proof -
  from assms(1) have tr: "update_product_try now p t = (Inr (), t')"
    by (simp add: update_product_Inr)
  then obtain k where k: "sku p = Some k" using update_product_try_sku by blast
  show ?thesis
  proof (cases "select_current_price k (working t)")
    case None
    from tr obtain d' t1 where nul: "CHR 0x00 \<notin> set k" and "price p = Some d'"
      and "insert_new_product now p k d' t = (Inr (), t1)"
      unfolding update_product_try_new [OF k None] by blast
    with assms(2) have "insert_new_product now p k d t = (Inr (), t1)" by simp
    then obtain m c n db1 where n: "in_stock p = Some n"
      and "insert_products k m c d n (get_default (ean p) '''') (get_default (cat_name p) '''')
             now (working t) = Inr db1"
      unfolding insert_new_product_Inr by blast
    then have "places d \<le> 16383 \<and> \<bar>quantize2 d\<bar> < 10 ^ 10 \<and> - (2 ^ 31) \<le> n \<and> n < 2 ^ 31"
      unfolding insert_products_Inr by blast
    with n k nul show ?thesis by blast
  next
    case (Some cur)
    from tr obtain d' t1 where nul: "CHR 0x00 \<notin> set k" and "price p = Some d'"
      and "update_existing_product now p k d' cur t = (Inr (), t1)"
      unfolding update_product_try_existing [OF k Some] by blast
    with assms(2) have t1: "update_existing_product now p k d cur t = (Inr (), t1)" by simp
    have "\<exists>n db1. in_stock p = Some n \<and> update_products d n k now (working t) = Inr db1"
    proof (cases "dec_ne cur d")
      case True
      from t1 show ?thesis
        unfolding update_existing_product_changed [OF True] by blast
    next
      case False
      from t1 show ?thesis
        unfolding update_existing_product_unchanged [OF False] by blast
    qed
    then obtain n db1 where n: "in_stock p = Some n"
      and "update_products d n k now (working t) = Inr db1"
      by blast
    then have "places d \<le> 16383 \<and> \<bar>quantize2 d\<bar> < 10 ^ 10 \<and> - (2 ^ 31) \<le> n \<and> n < 2 ^ 31"
      unfolding update_products_Inr by blast
    with n k nul show ?thesis by blast
  qed
qed

lemma select_after_success:
  assumes "update_product now p t = (Inr (), t')" and "sku p = Some k" and "price p = Some d"
    and "length k \<le> 255"
  shows "select_current_price k (working t') = Some (from_numeric_10_2 (quantize2 d))"
proof (cases "select_current_price k (working t)")
  case None
  with assms(4) have "k \<notin> set (map p_sku (products (working t)))"
    by (simp add: select_None_iff)
  with update_product_new [OF assms(1,2) None] assms(3,4) show ?thesis
    by (auto simp: select_current_price_def find_sku_append)
next
  case (Some cur)
  then obtain r where "find (\<lambda>r. p_sku r = k) (products (working t)) = Some r"
    by (auto simp: select_current_price_def split: if_splits)
  with update_product_existing [OF assms(1,2) Some] assms(3,4) show ?thesis
    by (auto simp: select_current_price_def find_sku_update)
qed

lemma rows_after_success:
  assumes "update_product now p t = (Inr (), t')" and "sku p = Some k"
    and "price p = Some d" and "in_stock p = Some n"
    and "r \<in> set (products (working t'))" and "p_sku r = k"
    and "length k \<le> 255"
  shows "current_price r = quantize2 d \<and> p_stock_level r = n"
proof (cases "select_current_price k (working t)")
  case None
  with assms(7) have fresh: "k \<notin> set (map p_sku (products (working t)))"
    by (simp add: select_None_iff)
  from update_product_new [OF assms(1,2) None]
  obtain m c d' n' where "price p = Some d'" "in_stock p = Some n'"
    and w: "working t' = (working t)\<lparr>products := products (working t) @
        [\<lparr>p_sku = take 255 k, p_model = take 255 m, p_color = take 255 c,
          current_price = quantize2 d', last_updated = now, p_stock_level = n',
          p_ean = take 255 (get_default (ean p) ''''),
          category = take 255 (get_default (cat_name p) '''')\<rparr>],
        price_history := price_history (working t) @
        [\<lparr>h_sku = take 255 k, h_price = quantize2 d', h_stock_level = n',
          h_timestamp = now\<rparr>]\<rparr>"
    by blast
  with assms(3,4) have dn: "d' = d" "n' = n" by simp_all
  from w have "products (working t') = products (working t) @
        [\<lparr>p_sku = take 255 k, p_model = take 255 m, p_color = take 255 c,
          current_price = quantize2 d', last_updated = now, p_stock_level = n',
          p_ean = take 255 (get_default (ean p) ''''),
          category = take 255 (get_default (cat_name p) '''')\<rparr>]"
    by simp
  with assms(5,6) fresh have "r = \<lparr>p_sku = take 255 k, p_model = take 255 m,
          p_color = take 255 c, current_price = quantize2 d', last_updated = now,
          p_stock_level = n', p_ean = take 255 (get_default (ean p) ''''),
          category = take 255 (get_default (cat_name p) '''')\<rparr>"
    by auto
  then have "current_price r = quantize2 d' \<and> p_stock_level r = n'"
    by (metis products_row.select_convs(4,6))
  with dn show ?thesis by simp
next
  case (Some cur)
  from update_product_existing [OF assms(1,2) Some]
  obtain d' n' where "price p = Some d'" "in_stock p = Some n'"
    and w: "products (working t') =
       map (\<lambda>r. if p_sku r = k
                then r\<lparr>current_price := quantize2 d', p_stock_level := n', last_updated := now\<rparr>
                else r) (products (working t))"
    by blast
  with assms(3,4) have dn: "d' = d" "n' = n" by simp_all
  from assms(5) obtain r0 where "r0 \<in> set (products (working t))"
    and r: "r = (if p_sku r0 = k
        then r0\<lparr>current_price := quantize2 d', p_stock_level := n', last_updated := now\<rparr>
        else r0)"
    unfolding w by auto
  with assms(6) have "r = r0\<lparr>current_price := quantize2 d', p_stock_level := n',
      last_updated := now\<rparr>"
    by (cases "p_sku r0 = k") simp_all
  then have "current_price r = quantize2 d' \<and> p_stock_level r = n'" by simp
  with dn show ?thesis by simp
qed

lemma stored_price_eq:
  assumes "select_current_price k db = Some cur" and "dec_eq cur d"
  shows "from_numeric_10_2 (quantize2 d) = cur"
proof -
  from assms(1) have cur: "cur = Decimal (coefficient cur) 2" by (rule select_Some_places)
  with assms(2) have "dec_eq (Decimal (coefficient cur) 2) d" by simp
  then have "quantize2 d = coefficient cur" by (rule quantize2_exact)
  with cur show ?thesis by (simp add: from_numeric_10_2_def)
qed

section \<open>The loop and the log\<close>

lemma respects_lift: "respects_tables (lift r)"
  by (simp add: respects_tables_def lift_def)

lemma respects_execute: "respects_tables (execute stmt)"
  by (auto simp: respects_tables_def execute_def same_tables_def split: sum.splits)

lemma respects_logger: "respects_tables (logger l)"
  by (simp add: respects_tables_def logger_def same_tables_def)

lemma respects_commit: "respects_tables commit"
  by (simp add: respects_tables_def commit_def same_tables_def)

lemma respects_select:
  "respects_tables (\<lambda>t. (Inr (select_current_price k (working t)), t))"
  by (simp add: respects_tables_def same_tables_def)

lemma respects_tablesD:
  assumes "respects_tables act" and "same_tables t1 t2"
    and "act t1 = (r1, u1)" and "act t2 = (r2, u2)"
  shows "r1 = r2" and "same_tables u1 u2"
proof -
  from assms(1,2) have "fst (act t1) = fst (act t2) \<and>
      same_tables (snd (act t1)) (snd (act t2))"
    unfolding respects_tables_def by blast
  with assms(3,4) show "r1 = r2" and "same_tables u1 u2" by simp_all
qed

lemma respects_thn:
  assumes "respects_tables act" and "\<And>x. respects_tables (f x)"
  shows "respects_tables (thn act f)"
  unfolding respects_tables_def
proof (intro allI impI)
  fix t1 t2 :: tracker
  assume s: "same_tables t1 t2"
  obtain r1 u1 where a1: "act t1 = (r1, u1)" by (cases "act t1")
  obtain r2 u2 where a2: "act t2 = (r2, u2)" by (cases "act t2")
  from assms(1) s a1 a2 have r: "r1 = r2" and u: "same_tables u1 u2"
    by (rule respects_tablesD)+
  from a2 r have a2': "act t2 = (r1, u2)" by simp
  show "fst (thn act f t1) = fst (thn act f t2) \<and>
        same_tables (snd (thn act f t1)) (snd (thn act f t2))"
  proof (cases r1)
    case (Inl e)
    with a1 a2' u show ?thesis by (simp add: thn_def)
  next
    case (Inr x)
    with a1 a2' u assms(2) [of x] show ?thesis
      by (simp add: thn_def respects_tables_def)
  qed
qed

lemma respects_insert_new_product: "respects_tables (insert_new_product now p k d)"
  unfolding insert_new_product_def
  by (intro respects_thn respects_lift respects_execute respects_logger)

lemma respects_update_existing_product:
  "respects_tables (update_existing_product now p k d cur)"
  unfolding update_existing_product_def
  by (intro respects_thn respects_lift respects_execute)
     (simp add: respects_thn respects_lift respects_execute respects_logger)

lemma respects_update_product_try: "respects_tables (update_product_try now p)"
  unfolding update_product_try_def
  by (intro respects_thn respects_lift respects_select respects_commit)
     (simp add: respects_insert_new_product respects_update_existing_product
        split: option.splits)

lemma respects_update_product: "respects_tables (update_product now p)"
  unfolding respects_tables_def
proof (intro allI impI)
  fix t1 t2 :: tracker
  assume s: "same_tables t1 t2"
  obtain r1 u1 where a1: "update_product_try now p t1 = (r1, u1)"
    by (cases "update_product_try now p t1")
  obtain r2 u2 where a2: "update_product_try now p t2 = (r2, u2)"
    by (cases "update_product_try now p t2")
  from respects_update_product_try [of now p] s a1 a2
  have r: "r1 = r2" and u: "same_tables u1 u2"
    by (rule respects_tablesD)+
  from a2 r have a2': "update_product_try now p t2 = (r1, u2)" by simp
  from a1 a2' u
  show "fst (update_product now p t1) = fst (update_product now p t2) \<and>
        same_tables (snd (update_product now p t1)) (snd (update_product now p t2))"
    by (cases r1; cases "sku p")
       (simp_all add: update_product_def Let_def rollback_def same_tables_def)
qed

lemma update_each_same_tables:
  "same_tables t1 t2 \<Longrightarrow> same_tables (update_each ps t1) (update_each ps t2)"
proof (induction ps arbitrary: t1 t2)
  case Nil
  then show ?case by simp
next
  case (Cons x ps)
  obtain now p where x: "x = (now, p)" by (cases x)
  obtain r1 u1 where a1: "update_product now p t1 = (r1, u1)"
    by (cases "update_product now p t1")
  obtain r2 u2 where a2: "update_product now p t2 = (r2, u2)"
    by (cases "update_product now p t2")
  from respects_update_product [of now p] Cons.prems a1 a2
  have r: "r1 = r2" and u: "same_tables u1 u2"
    by (rule respects_tablesD)+
  from a2 r have a2': "update_product now p t2 = (r1, u2)" by simp
  show ?case
  proof (cases r1)
    case (Inl e)
    from u have "same_tables
        (u1\<lparr>log_lines := log_lines u1 @
              [Failed_to_update_product (get_default (sku p) ''unknown'') e]\<rparr>)
        (u2\<lparr>log_lines := log_lines u2 @
              [Failed_to_update_product (get_default (sku p) ''unknown'') e]\<rparr>)"
      by (simp add: same_tables_def)
    from Cons.IH [OF this] Inl a1 a2' x show ?thesis by simp
  next
    case (Inr v)
    from Cons.IH [OF u] Inr a1 a2' x show ?thesis by simp
  qed
qed

lemma update_each_append:
  "update_each (xs @ ys) t = update_each ys (update_each xs t)"
proof (induction xs arbitrary: t)
  case Nil
  then show ?case by simp
next
  case (Cons x xs)
  obtain now p where x: "x = (now, p)" by (cases x)
  obtain r u where a: "update_product now p t = (r, u)"
    by (cases "update_product now p t")
  with x Cons.IH show ?case by (cases r) simp_all
qed

lemma update_each_idle: "idle t \<Longrightarrow> idle (update_each ps t)"
proof (induction ps arbitrary: t)
  case Nil
  then show ?case by simp
next
  case (Cons x ps)
  obtain now p where x: "x = (now, p)" by (cases x)
  obtain r u where a: "update_product now p t = (r, u)"
    by (cases "update_product now p t")
  from a have u: "idle u" by (rule update_product_idle)
  show ?case
  proof (cases r)
    case (Inl e)
    from u have "idle (u\<lparr>log_lines := log_lines u @
              [Failed_to_update_product (get_default (sku p) ''unknown'') e]\<rparr>)"
      by (simp add: idle_def)
    from Cons.IH [OF this] Inl a x show ?thesis by simp
  next
    case (Inr v)
    from Cons.IH [OF u] Inr a x show ?thesis by simp
  qed
qed

lemma update_product_log:
  assumes "update_product now p t = (r, t')"
  shows "set (log_lines t) \<subseteq> set (log_lines t')"
proof (cases r)
  case (Inl e)
  with assms update_product_Inl [of now p t e t'] show ?thesis
    by (auto split: option.splits)
next
  case (Inr u)
  with assms have run: "update_product now p t = (Inr (), t')" by simp
  then show ?thesis
  proof (cases rule: update_product_cases)
    case (failed e)
    then show ?thesis by simp
  next
    case (new k)
    with run update_product_new [of now p t "()" t' k] show ?thesis by auto
  next
    case (existing k cur)
    with run update_product_existing [of now p t "()" t' k cur] show ?thesis
      by (auto split: if_splits)
  qed
qed

lemma update_each_log:
  "set (log_lines t) \<subseteq> set (log_lines (update_each ps t))"
proof (induction ps arbitrary: t)
  case Nil
  then show ?case by simp
next
  case (Cons x ps)
  obtain now p where x: "x = (now, p)" by (cases x)
  obtain r u where a: "update_product now p t = (r, u)"
    by (cases "update_product now p t")
  from a have u: "set (log_lines t) \<subseteq> set (log_lines u)" by (rule update_product_log)
  show ?case
  proof (cases r)
    case (Inl e)
    have "set (log_lines (u\<lparr>log_lines := log_lines u @
              [Failed_to_update_product (get_default (sku p) ''unknown'') e]\<rparr>))
          \<subseteq> set (log_lines (update_each ps (u\<lparr>log_lines := log_lines u @
              [Failed_to_update_product (get_default (sku p) ''unknown'') e]\<rparr>)))"
      by (rule Cons.IH)
    with u Inl a x show ?thesis by auto
  next
    case (Inr v)
    from Cons.IH [of u] u Inr a x show ?thesis by auto
  qed
qed

lemma track_prices_same_tables: "same_tables (track_prices ps t) (update_each ps t)"
proof -
  have "same_tables (t\<lparr>log_lines := log_lines t @ [Fetched (length ps)]\<rparr>) t"
    by (simp add: same_tables_def)
  then have "same_tables
      (update_each ps (t\<lparr>log_lines := log_lines t @ [Fetched (length ps)]\<rparr>))
      (update_each ps t)"
    by (rule update_each_same_tables)
  then show ?thesis by (simp add: track_prices_def Let_def same_tables_def)
qed

lemma same_tables_on_tables: "idle t \<Longrightarrow> same_tables t (on_tables (committed t))"
  by (simp add: same_tables_def on_tables_def idle_def)

lemma update_product_on_tables:
  assumes "idle t" and "update_product now p t = (r, t')"
  shows "\<exists>u. update_product now p (on_tables (committed t)) = (r, u) \<and>
           committed u = committed t'"
proof -
  obtain r2 u where a: "update_product now p (on_tables (committed t)) = (r2, u)"
    by (cases "update_product now p (on_tables (committed t))")
  from respects_update_product [of now p] same_tables_on_tables [OF assms(1)] assms(2) a
  have "r = r2" and "same_tables t' u"
    by (rule respects_tablesD)+
  with a show ?thesis by (simp add: same_tables_def)
qed

lemma update_each_reconcile_in_order:
  "idle t \<Longrightarrow> committed (update_each ps t) = reconcile_in_order ps (committed t)"
proof (induction ps arbitrary: t)
  case Nil
  then show ?case by simp
next
  case (Cons x ps)
  obtain now p where x: "x = (now, p)" by (cases x)
  obtain r u where a: "update_product now p t = (r, u)"
    by (cases "update_product now p t")
  from update_product_on_tables [OF Cons.prems a]
  obtain v where b: "update_product now p (on_tables (committed t)) = (r, v)"
    and c: "committed v = committed u" by blast
  from a have u: "idle u" by (rule update_product_idle)
  show ?case
  proof (cases r)
    case (Inl e)
    let ?u = "u\<lparr>log_lines := log_lines u @
              [Failed_to_update_product (get_default (sku p) ''unknown'') e]\<rparr>"
    from a Inl have "committed u = committed t"
      using update_product_Inl [of now p t e u] by simp
    with u have "idle ?u" and "committed ?u = committed t" by (simp_all add: idle_def)
    with Cons.IH [of ?u] have "committed (update_each ps ?u) =
        reconcile_in_order ps (committed t)" by simp
    with Inl a b x show ?thesis by simp
  next
    case (Inr w)
    from Cons.IH [OF u] c have "committed (update_each ps u) =
        reconcile_in_order ps (committed v)" by simp
    with Inr a b x show ?thesis by simp
  qed
qed

lemma reconcile_in_order_append:
  "reconcile_in_order (xs @ ys) d = reconcile_in_order ys (reconcile_in_order xs d)"
proof (induction xs arbitrary: d)
  case Nil
  then show ?case by simp
next
  case (Cons x xs)
  obtain now p where x: "x = (now, p)" by (cases x)
  obtain r u where a: "update_product now p (on_tables d) = (r, u)"
    by (cases "update_product now p (on_tables d)")
  with x Cons.IH show ?case by (cases r) simp_all
qed

lemma reconcile_in_order_failing:
  assumes "fst (update_product now p (on_tables d)) = Inl e"
  shows "reconcile_in_order ((now, p) # ps) d = reconcile_in_order ps d"
  using assms by (cases "update_product now p (on_tables d)") simp

section \<open>Evaluation on the examples\<close>

text \<open>Unfolding everything evaluates \<^verbatim>\<open>update_product\<close> on a concrete state.\<close>

lemmas run_defs = update_product_def update_product_try_def insert_new_product_def
  update_existing_product_def thn_def lift_def execute_def logger_def commit_def rollback_def
  insert_products_def insert_price_history_def update_products_def select_current_price_def
  adapt_text_def to_varchar_255_def to_numeric_10_2_def to_integer_def from_numeric_10_2_def
  get_default_def dec_ne_def Let_def

lemmas example_defs = observation_def sku1_row_def sku1_entry_def tracking_def
  connected_def seen_once_def

lemma observation_fields:
  "sku (observation k d n) = Some k" "model (observation k d n) = Some ''M1''"
  "color (observation k d n) = Some ''black''" "price (observation k d n) = Some d"
  "in_stock (observation k d n) = Some n" "ean (observation k d n) = None"
  "cat_name (observation k d n) = None"
  by (simp_all add: observation_def)

lemma select_seen_once:
  "select_current_price ''SKU1'' (working (seen_once q n)) = Some (Decimal q 2)"
  by (simp add: select_current_price_def example_defs from_numeric_10_2_def)

section \<open>First observation of an identifier\<close>

text \<open>
  Claim C1, as amended. When \<^verbatim>\<open>update_product\<close> returns normally for an item whose
  identifier has no \<^verbatim>\<open>products\<close> row, the committed tables are the tables the
  connection saw with exactly one \<^verbatim>\<open>products\<close> row and exactly one
  \<^verbatim>\<open>price_history\<close> row appended. The new rows carry the item's identifier, model
  and colour as the \<^verbatim>\<open>VARCHAR(255)\<close> columns store them, which is as observed up to
  255 characters and the first 255 characters of a longer value, the stock count as
  observed, and the observed price rounded to two decimal places; the log gains the line
  for a new product.
\<close>

theorem first_observation_inserted:
  assumes "sku p = Some k" and "model p = Some m" and "color p = Some c"
    and "price p = Some d" and "in_stock p = Some n"
    and "select_current_price k (working t) = None"
    and "update_product now p t = (Inr (), t')"
  shows "products (committed t') = products (working t) @
           [\<lparr>p_sku = take 255 k, p_model = take 255 m, p_color = take 255 c,
             current_price = quantize2 d, last_updated = now, p_stock_level = n,
             p_ean = take 255 (get_default (ean p) ''''),
             category = take 255 (get_default (cat_name p) '''')\<rparr>] \<and>
         price_history (committed t') = price_history (working t) @
           [\<lparr>h_sku = take 255 k, h_price = quantize2 d, h_stock_level = n,
             h_timestamp = now\<rparr>] \<and>
         working t' = committed t' \<and>
         log_lines t' = log_lines t @ [Added_new_product k]"
  using update_product_new [OF assms(7) assms(1) assms(6)] assms(2-5)
  by auto

text \<open>
  Witness for C1: the first observation of \<^verbatim>\<open>SKU1\<close> at 19.99 with 5 in stock, on
  empty tables.
\<close>

theorem first_observation_inserted_witness:
  "sku (observation ''SKU1'' (Decimal 1999 2) 5) = Some ''SKU1'' \<and>
   select_current_price ''SKU1'' (working connected) = None \<and>
   update_product 1 (observation ''SKU1'' (Decimal 1999 2) 5) connected = (Inr (), seen_once 1999 5) \<and>
   products (committed (seen_once 1999 5)) = products (working connected) @
     [\<lparr>p_sku = ''SKU1'', p_model = ''M1'', p_color = ''black'', current_price = 1999,
       last_updated = 1, p_stock_level = 5, p_ean = '''', category = ''''\<rparr>] \<and>
   price_history (committed (seen_once 1999 5)) = price_history (working connected) @
     [\<lparr>h_sku = ''SKU1'', h_price = 1999, h_stock_level = 5, h_timestamp = 1\<rparr>]"
proof -
  have run: "update_product 1 (observation ''SKU1'' (Decimal 1999 2) 5) connected
               = (Inr (), seen_once 1999 5)"
    by (simp add: run_defs example_defs)
  have sel: "select_current_price ''SKU1'' (working connected) = None"
    by (simp add: select_current_price_def example_defs)
  have obs: "sku (observation ''SKU1'' (Decimal 1999 2) 5) = Some ''SKU1''"
    "model (observation ''SKU1'' (Decimal 1999 2) 5) = Some ''M1''"
    "color (observation ''SKU1'' (Decimal 1999 2) 5) = Some ''black''"
    "price (observation ''SKU1'' (Decimal 1999 2) 5) = Some (Decimal 1999 2)"
    "in_stock (observation ''SKU1'' (Decimal 1999 2) 5) = Some 5"
    "ean (observation ''SKU1'' (Decimal 1999 2) 5) = None"
    "cat_name (observation ''SKU1'' (Decimal 1999 2) 5) = None"
    by (simp_all add: observation_def)
  show ?thesis
    using first_observation_inserted [OF obs(1-5) sel run] obs(1) sel run
    by (simp add: get_default_def obs(6,7))
qed

text \<open>
  Counterexample to C1 as stated: first observed at the price 10.001, \<^verbatim>\<open>SKU1\<close> gets
  a \<^verbatim>\<open>products\<close> row and a \<^verbatim>\<open>price_history\<close> row that both carry 10.00, which
  is not the observed price.
\<close>

theorem first_observation_price_counterexample:
  "select_current_price ''SKU1'' (working connected) = None \<and>
   update_product 1 (observation ''SKU1'' (Decimal 10001 3) 5) connected
     = (Inr (), seen_once 1000 5) \<and>
   map current_price (products (committed (seen_once 1000 5))) = [1000] \<and>
   map h_price (price_history (committed (seen_once 1000 5))) = [1000] \<and>
   dec_ne (from_numeric_10_2 1000) (Decimal 10001 3)"
  by (simp add: run_defs example_defs)

section \<open>Later observations of an identifier\<close>

text \<open>
  Claim C2. When \<^verbatim>\<open>update_product\<close> returns normally for an item whose identifier has
  a \<^verbatim>\<open>products\<close> row and whose observed price equals the stored one, the row gets the
  observed stock count and the time of the call, its price is written again with the
  value it had, \<^verbatim>\<open>price_history\<close> is as it was, and nothing is logged.
\<close>

theorem unchanged_price_no_history:
  assumes "sku p = Some k" and "price p = Some d" and "in_stock p = Some n"
    and "select_current_price k (working t) = Some cur"
    and "dec_eq cur d"
    and "update_product now p t = (Inr (), t')"
  shows "products (committed t') =
           map (\<lambda>r. if p_sku r = k
                    then r\<lparr>current_price := quantize2 d, p_stock_level := n,
                           last_updated := now\<rparr>
                    else r) (products (working t)) \<and>
         from_numeric_10_2 (quantize2 d) = cur \<and>
         price_history (committed t') = price_history (working t) \<and>
         working t' = committed t' \<and>
         log_lines t' = log_lines t"
  using update_product_existing [OF assms(6) assms(1) assms(4)] assms(2,3,5)
    stored_price_eq [OF assms(4,5)]
  by (auto simp: dec_ne_def)

text \<open>
  Witness for C2: \<^verbatim>\<open>SKU1\<close>, stored at 19.99 with 5 in stock, is observed at time 2 at
  19.99 with 3 in stock.
\<close>

theorem unchanged_price_no_history_witness:
  "select_current_price ''SKU1'' (working (seen_once 1999 5)) = Some (Decimal 1999 2) \<and>
   dec_eq (Decimal 1999 2) (Decimal 1999 2) \<and>
   update_product 2 (observation ''SKU1'' (Decimal 1999 2) 3) (seen_once 1999 5) =
     (Inr (), tracking [sku1_row 1999 3 2] [sku1_entry 1999 5 1] [Added_new_product ''SKU1'']) \<and>
   price_history (committed
     (tracking [sku1_row 1999 3 2] [sku1_entry 1999 5 1] [Added_new_product ''SKU1''])) =
     price_history (working (seen_once 1999 5))"
proof -
  have run: "update_product 2 (observation ''SKU1'' (Decimal 1999 2) 3) (seen_once 1999 5) =
     (Inr (), tracking [sku1_row 1999 3 2] [sku1_entry 1999 5 1] [Added_new_product ''SKU1''])"
    by (simp add: run_defs example_defs)
  have eq: "dec_eq (Decimal 1999 2) (Decimal 1999 2)" by simp
  show ?thesis
    using unchanged_price_no_history [OF observation_fields(1,4,5) select_seen_once eq run]
      select_seen_once eq run
    by simp
qed

text \<open>
  Claim C3, as amended. When \<^verbatim>\<open>update_product\<close> returns normally for an item whose
  identifier has a \<^verbatim>\<open>products\<close> row and whose observed price, rounded to two decimal
  places, differs from the stored one, the row gets the rounded price, the observed
  stock count and the time of the call, and exactly one \<^verbatim>\<open>price_history\<close> row with
  the rounded price and the observed stock count is appended after the rows already
  there; the log gains the line for a price change.
\<close>

theorem changed_price_appends_history:
  assumes "sku p = Some k" and "price p = Some d" and "in_stock p = Some n"
    and "select_current_price k (working t) = Some cur"
    and "from_numeric_10_2 (quantize2 d) \<noteq> cur"
    and "update_product now p t = (Inr (), t')"
  shows "products (committed t') =
           map (\<lambda>r. if p_sku r = k
                    then r\<lparr>current_price := quantize2 d, p_stock_level := n,
                           last_updated := now\<rparr>
                    else r) (products (working t)) \<and>
         price_history (committed t') = price_history (working t) @
           [\<lparr>h_sku = k, h_price = quantize2 d, h_stock_level = n, h_timestamp = now\<rparr>] \<and>
         working t' = committed t' \<and>
         log_lines t' = log_lines t @ [Price_change k cur d]"
proof -
  have "dec_ne cur d"
    using stored_price_eq [OF assms(4)] assms(5) by (auto simp: dec_ne_def)
  with update_product_existing [OF assms(6) assms(1) assms(4)] assms(2,3)
  show ?thesis by auto
qed

text \<open>
  Witness for C3: \<^verbatim>\<open>SKU1\<close>, stored at 19.99 with 5 in stock, is observed at time 3 at
  17.99 with 3 in stock.
\<close>

theorem changed_price_appends_history_witness:
  "select_current_price ''SKU1'' (working (seen_once 1999 5)) = Some (Decimal 1999 2) \<and>
   from_numeric_10_2 (quantize2 (Decimal 1799 2)) \<noteq> Decimal 1999 2 \<and>
   update_product 3 (observation ''SKU1'' (Decimal 1799 2) 3) (seen_once 1999 5) =
     (Inr (), tracking [sku1_row 1799 3 3] [sku1_entry 1999 5 1, sku1_entry 1799 3 3]
        [Added_new_product ''SKU1'',
         Price_change ''SKU1'' (Decimal 1999 2) (Decimal 1799 2)]) \<and>
   price_history (committed
     (tracking [sku1_row 1799 3 3] [sku1_entry 1999 5 1, sku1_entry 1799 3 3]
        [Added_new_product ''SKU1'',
         Price_change ''SKU1'' (Decimal 1999 2) (Decimal 1799 2)])) =
     price_history (working (seen_once 1999 5)) @
       [\<lparr>h_sku = ''SKU1'', h_price = quantize2 (Decimal 1799 2), h_stock_level = 3,
         h_timestamp = 3\<rparr>]"
proof -
  have run: "update_product 3 (observation ''SKU1'' (Decimal 1799 2) 3) (seen_once 1999 5) =
     (Inr (), tracking [sku1_row 1799 3 3] [sku1_entry 1999 5 1, sku1_entry 1799 3 3]
        [Added_new_product ''SKU1'',
         Price_change ''SKU1'' (Decimal 1999 2) (Decimal 1799 2)])"
    by (simp add: run_defs example_defs)
  have ne: "from_numeric_10_2 (quantize2 (Decimal 1799 2)) \<noteq> Decimal 1999 2"
    by (simp add: from_numeric_10_2_def)
  show ?thesis
    using changed_price_appends_history [OF observation_fields(1,4,5) select_seen_once ne run]
      select_seen_once ne run
    by simp
qed

text \<open>
  Counterexample to C3 as stated: \<^verbatim>\<open>SKU1\<close>, stored at 19.99, is observed at 17.999.
  The \<^verbatim>\<open>products\<close> row and the appended \<^verbatim>\<open>price_history\<close> row carry 18.00, which is
  not the new price.
\<close>

theorem changed_price_counterexample:
  "dec_ne (Decimal 1999 2) (Decimal 17999 3) \<and>
   update_product 3 (observation ''SKU1'' (Decimal 17999 3) 3) (seen_once 1999 5) =
     (Inr (), tracking [sku1_row 1800 3 3] [sku1_entry 1999 5 1, sku1_entry 1800 3 3]
        [Added_new_product ''SKU1'',
         Price_change ''SKU1'' (Decimal 1999 2) (Decimal 17999 3)]) \<and>
   dec_ne (from_numeric_10_2 (current_price (sku1_row 1800 3 3))) (Decimal 17999 3) \<and>
   dec_ne (from_numeric_10_2 (h_price (sku1_entry 1800 3 3))) (Decimal 17999 3)"
  by (simp add: run_defs example_defs)

section \<open>Failure of a single item\<close>




section \<open>Failure of an item in a batch\<close>

text \<open>
  Claim C5. Let the loop of \<^verbatim>\<open>track_prices\<close> run over a batch, starting with no
  transaction open, and let \<^verbatim>\<open>update_product\<close> raise for one item of it. Then the loop
  still runs to the end of the batch, and the tables it leaves, committed, are exactly
  those that reconciling every other item of the batch, in order, on the tables committed
  at the start produces: each other item that can be reconciled on the tables the items
  before it have left is reconciled and committed, and the failing one leaves no trace in
  the tables. They are also the tables the loop leaves on the batch without that item.
  The failure is in the log. The same holds of \<^verbatim>\<open>track_prices\<close> as a whole.
\<close>

theorem failed_item_does_not_stop_batch:
  assumes "idle t"
    and "fst (update_product now p (update_each before t)) = Inl e"
  shows "committed (update_each (before @ (now, p) # after) t) =
           reconcile_in_order (before @ after) (committed t) \<and>
         working (update_each (before @ (now, p) # after) t) =
           reconcile_in_order (before @ after) (committed t) \<and>
         committed (track_prices (before @ (now, p) # after) t) =
           reconcile_in_order (before @ after) (committed t) \<and>
         working (track_prices (before @ (now, p) # after) t) =
           reconcile_in_order (before @ after) (committed t) \<and>
         committed (update_each (before @ (now, p) # after) t) =
           committed (update_each (before @ after) t) \<and>
         committed (track_prices (before @ (now, p) # after) t) =
           committed (track_prices (before @ after) t) \<and>
         Failed_to_update_product (get_default (sku p) ''unknown'') e
           \<in> set (log_lines (update_each (before @ (now, p) # after) t)) \<and>
         Failed_to_update_product (get_default (sku p) ''unknown'') e
           \<in> set (log_lines (track_prices (before @ (now, p) # after) t))"
proof -
  let ?all = "before @ (now, p) # after"
  let ?t0 = "update_each before t"
  let ?d0 = "reconcile_in_order before (committed t)"
  let ?l = "Failed_to_update_product (get_default (sku p) ''unknown'') e"
  let ?t1 = "t\<lparr>log_lines := log_lines t @ [Fetched (length ?all)]\<rparr>"
  have idle0: "idle ?t0" using assms(1) by (rule update_each_idle)
  have d0: "committed ?t0 = ?d0" using assms(1) by (rule update_each_reconcile_in_order)
  obtain t1 where run: "update_product now p ?t0 = (Inl e, t1)"
    using assms(2) by (cases "update_product now p ?t0") simp
  from update_product_on_tables [OF idle0 run] d0
  have "fst (update_product now p (on_tables ?d0)) = Inl e" by auto
  then have skip: "reconcile_in_order ((now, p) # after) ?d0 = reconcile_in_order after ?d0"
    by (rule reconcile_in_order_failing)
  have spec: "reconcile_in_order ?all (committed t) =
      reconcile_in_order (before @ after) (committed t)"
    by (simp only: reconcile_in_order_append skip)
  have c: "committed (update_each ?all t) = reconcile_in_order (before @ after) (committed t)"
    using update_each_reconcile_in_order [OF assms(1), of ?all] spec by simp
  have "idle (update_each ?all t)" using assms(1) by (rule update_each_idle)
  with c have w: "working (update_each ?all t) =
      reconcile_in_order (before @ after) (committed t)"
    by (simp add: idle_def)
  from track_prices_same_tables [of ?all t] c w
  have tc: "committed (track_prices ?all t) = reconcile_in_order (before @ after) (committed t)"
    and tw: "working (track_prices ?all t) = reconcile_in_order (before @ after) (committed t)"
    by (simp_all add: same_tables_def)
  have r: "committed (update_each (before @ after) t) =
      reconcile_in_order (before @ after) (committed t)"
    using assms(1) by (rule update_each_reconcile_in_order)
  from track_prices_same_tables [of "before @ after" t] r
  have tr: "committed (track_prices (before @ after) t) =
      reconcile_in_order (before @ after) (committed t)"
    by (simp add: same_tables_def)
  have logged: "?l \<in> set (log_lines (update_each ?all u))"
    if h: "fst (update_product now p (update_each before u)) = Inl e" for u
  proof -
    obtain u1 where urun: "update_product now p (update_each before u) = (Inl e, u1)"
      using h by (cases "update_product now p (update_each before u)") simp
    let ?u2 = "u1\<lparr>log_lines := log_lines u1 @ [?l]\<rparr>"
    have step: "update_each ?all u = update_each after ?u2"
      using urun by (simp add: update_each_append)
    have "?l \<in> set (log_lines ?u2)" by simp
    with update_each_log [of ?u2 after] step show ?thesis by auto
  qed
  have l1: "?l \<in> set (log_lines (update_each ?all t))"
    using assms(2) by (rule logged)
  have "same_tables ?t1 t" by (simp add: same_tables_def)
  then have s: "same_tables (update_each before ?t1) ?t0"
    by (rule update_each_same_tables)
  obtain r2 u2 where a2: "update_product now p (update_each before ?t1) = (r2, u2)"
    by (cases "update_product now p (update_each before ?t1)")
  from respects_update_product [of now p] s a2 run have "r2 = Inl e"
    by (rule respects_tablesD)
  with a2 have "fst (update_product now p (update_each before ?t1)) = Inl e" by simp
  then have "?l \<in> set (log_lines (update_each ?all ?t1))" by (rule logged)
  then have l2: "?l \<in> set (log_lines (track_prices ?all t))"
    by (simp add: track_prices_def Let_def)
  from c w tc tw r tr l1 l2 show ?thesis by simp
qed

text \<open>
  Witness for C5: a batch of three items on empty tables. The second has a stock count
  the \<^verbatim>\<open>INTEGER\<close> column rejects; the first and the third are inserted and committed.
\<close>

theorem failed_item_does_not_stop_batch_witness:
  "idle connected \<and>
   fst (update_product 2 (observation ''SKU2'' (Decimal 250 2) (2 ^ 31))
          (update_each [(1, observation ''SKU1'' (Decimal 1999 2) 5)] connected)) =
     Inl NumericValueOutOfRange \<and>
   committed (track_prices
      ([(1, observation ''SKU1'' (Decimal 1999 2) 5)] @
       (2, observation ''SKU2'' (Decimal 250 2) (2 ^ 31)) #
       [(3, observation ''SKU3'' (Decimal 300 2) 7)]) connected) =
     \<lparr>products =
        [sku1_row 1999 5 1,
         \<lparr>p_sku = ''SKU3'', p_model = ''M1'', p_color = ''black'', current_price = 300,
          last_updated = 3, p_stock_level = 7, p_ean = '''', category = ''''\<rparr>],
      price_history =
        [sku1_entry 1999 5 1,
         \<lparr>h_sku = ''SKU3'', h_price = 300, h_stock_level = 7, h_timestamp = 3\<rparr>]\<rparr> \<and>
   working (track_prices
      ([(1, observation ''SKU1'' (Decimal 1999 2) 5)] @
       (2, observation ''SKU2'' (Decimal 250 2) (2 ^ 31)) #
       [(3, observation ''SKU3'' (Decimal 300 2) 7)]) connected) =
     \<lparr>products =
        [sku1_row 1999 5 1,
         \<lparr>p_sku = ''SKU3'', p_model = ''M1'', p_color = ''black'', current_price = 300,
          last_updated = 3, p_stock_level = 7, p_ean = '''', category = ''''\<rparr>],
      price_history =
        [sku1_entry 1999 5 1,
         \<lparr>h_sku = ''SKU3'', h_price = 300, h_stock_level = 7, h_timestamp = 3\<rparr>]\<rparr> \<and>
   Failed_to_update_product ''SKU2'' NumericValueOutOfRange
     \<in> set (log_lines (track_prices
      ([(1, observation ''SKU1'' (Decimal 1999 2) 5)] @
       (2, observation ''SKU2'' (Decimal 250 2) (2 ^ 31)) #
       [(3, observation ''SKU3'' (Decimal 300 2) 7)]) connected))"
proof -
  have i: "idle connected" by (simp add: idle_def example_defs)
  have first: "update_each [(1, observation ''SKU1'' (Decimal 1999 2) 5)] connected =
                 seen_once 1999 5"
    by (simp add: run_defs example_defs)
  have fails: "fst (update_product 2 (observation ''SKU2'' (Decimal 250 2) (2 ^ 31))
          (update_each [(1, observation ''SKU1'' (Decimal 1999 2) 5)] connected)) =
     Inl NumericValueOutOfRange"
    unfolding first by (simp add: run_defs example_defs)
  have one: "update_product 1 (observation ''SKU1'' (Decimal 1999 2) 5)
               (on_tables (committed connected)) =
     (Inr (), seen_once 1999 5)"
    by (simp add: run_defs example_defs on_tables_def)
  have three: "update_product 3 (observation ''SKU3'' (Decimal 300 2) 7)
                 (on_tables (committed (seen_once 1999 5))) =
     (Inr (), tracking
        [sku1_row 1999 5 1,
         \<lparr>p_sku = ''SKU3'', p_model = ''M1'', p_color = ''black'', current_price = 300,
          last_updated = 3, p_stock_level = 7, p_ean = '''', category = ''''\<rparr>]
        [sku1_entry 1999 5 1,
         \<lparr>h_sku = ''SKU3'', h_price = 300, h_stock_level = 7, h_timestamp = 3\<rparr>]
        [Added_new_product ''SKU3''])"
    by (simp add: run_defs example_defs on_tables_def)
  have both: "reconcile_in_order
      ([(1, observation ''SKU1'' (Decimal 1999 2) 5)] @
       [(3, observation ''SKU3'' (Decimal 300 2) 7)]) (committed connected) =
     \<lparr>products =
        [sku1_row 1999 5 1,
         \<lparr>p_sku = ''SKU3'', p_model = ''M1'', p_color = ''black'', current_price = 300,
          last_updated = 3, p_stock_level = 7, p_ean = '''', category = ''''\<rparr>],
      price_history =
        [sku1_entry 1999 5 1,
         \<lparr>h_sku = ''SKU3'', h_price = 300, h_stock_level = 7, h_timestamp = 3\<rparr>]\<rparr>"
    by (simp only: append.simps reconcile_in_order.simps one three prod.case sum.case)
      (simp add: tracking_def)
  have name: "get_default (sku (observation ''SKU2'' (Decimal 250 2) (2 ^ 31))) ''unknown'' =
      ''SKU2''"
    by (simp add: get_default_def observation_def)
  from failed_item_does_not_stop_batch [OF i fails,
      of "[(3, observation ''SKU3'' (Decimal 300 2) 7)]"] i fails
  show ?thesis unfolding both name by blast
qed

section \<open>The price comparison\<close>

text \<open>
  Claim C6. The comparison \<^verbatim>\<open>current_price != new_price\<close> is exact: two decimals
  compare unequal exactly when the numbers they denote differ, whatever their
  representations. It is this comparison that decides about the history entry: when
  \<^verbatim>\<open>update_product\<close> returns normally for an item whose identifier has a row, a
  \<^verbatim>\<open>price_history\<close> row was appended if the stored and the observed price denote
  different numbers, and \<^verbatim>\<open>price_history\<close> is as it was if they denote the same.
\<close>

theorem price_comparison_exact:
  assumes "sku p = Some k" and "price p = Some d"
    and "select_current_price k (working t) = Some cur"
    and "update_product now p t = (Inr (), t')"
  shows "(dec_ne x y \<longleftrightarrow> dec_val x \<noteq> dec_val y) \<and>
         (dec_eq x y \<longleftrightarrow> dec_val x = dec_val y) \<and>
         (length (price_history (committed t')) =
            (if dec_val cur = dec_val d then length (price_history (working t))
             else length (price_history (working t)) + 1))"
  using update_product_existing [OF assms(4) assms(1) assms(3)] assms(2)
  by (auto simp: dec_ne_iff_val dec_eq_iff_val)

text \<open>
  Witness for C6: \<^verbatim>\<open>SKU1\<close>, stored as 10.50, is observed at 10.5000, and no history
  entry is appended; 10.50 and 10.5000 compare equal, 10.001 and 10.002 compare unequal.
\<close>

theorem price_comparison_exact_witness:
  "select_current_price ''SKU1'' (working (seen_once 1050 5)) = Some (Decimal 1050 2) \<and>
   update_product 2 (observation ''SKU1'' (Decimal 105000 4) 5) (seen_once 1050 5) =
     (Inr (), tracking [sku1_row 1050 5 2] [sku1_entry 1050 5 1] [Added_new_product ''SKU1'']) \<and>
   dec_eq (Decimal 1050 2) (Decimal 105000 4) \<and>
   dec_val (Decimal 1050 2) = dec_val (Decimal 105000 4) \<and>
   dec_ne (Decimal 10001 3) (Decimal 10002 3) \<and>
   dec_val (Decimal 10001 3) \<noteq> dec_val (Decimal 10002 3) \<and>
   length (price_history (committed
     (tracking [sku1_row 1050 5 2] [sku1_entry 1050 5 1] [Added_new_product ''SKU1'']))) =
   length (price_history (working (seen_once 1050 5)))"
proof -
  have run: "update_product 2 (observation ''SKU1'' (Decimal 105000 4) 5) (seen_once 1050 5) =
     (Inr (), tracking [sku1_row 1050 5 2] [sku1_entry 1050 5 1] [Added_new_product ''SKU1''])"
    by (simp add: run_defs example_defs)
  have eq: "dec_eq (Decimal 1050 2) (Decimal 105000 4)" by simp
  have ne: "dec_ne (Decimal 10001 3) (Decimal 10002 3)" by (simp add: dec_ne_def)
  note th = price_comparison_exact [OF observation_fields(1,4) select_seen_once run]
  from th [of "Decimal 1050 2" "Decimal 105000 4"] eq
  have v1: "dec_val (Decimal 1050 2) = dec_val (Decimal 105000 4)" by blast
  from th [of "Decimal 10001 3" "Decimal 10002 3"] ne
  have v2: "dec_val (Decimal 10001 3) \<noteq> dec_val (Decimal 10002 3)" by blast
  from th [of "Decimal 1050 2" "Decimal 105000 4"] v1
  have len: "length (price_history (committed
     (tracking [sku1_row 1050 5 2] [sku1_entry 1050 5 1] [Added_new_product ''SKU1'']))) =
     length (price_history (working (seen_once 1050 5)))" by simp
  show ?thesis
    using select_seen_once run eq ne v1 v2 len by blast
qed

section \<open>Observing the same item twice\<close>

text \<open>
  What the second of two calls for the same item does when the price has at most two
  decimal places (rounding leaves its value as it is) and the identifier has at most 255
  characters: it returns normally, appends no \<^verbatim>\<open>price_history\<close> row, logs nothing, and
  changes the item's row in \<^verbatim>\<open>last_updated\<close> only.
\<close>

lemma second_call_two_places:
  assumes "update_product now1 p t = (Inr (), t1)"
    and "sku p = Some k" and "price p = Some d"
    and "dec_eq (from_numeric_10_2 (quantize2 d)) d"
    and "length k \<le> 255"
  shows "\<exists>t2. update_product now2 p t1 = (Inr (), t2) \<and>
           products (committed t2) =
             map (\<lambda>r. if p_sku r = k then r\<lparr>last_updated := now2\<rparr> else r)
               (products (committed t1)) \<and>
           price_history (committed t2) = price_history (committed t1) \<and>
           log_lines t2 = log_lines t1"
proof -
  let ?cur = "from_numeric_10_2 (quantize2 d)"
  from success_bounds [OF assms(1,3)] assms(2) obtain n where n: "in_stock p = Some n"
    and bounds: "places d \<le> 16383" "\<bar>quantize2 d\<bar> < 10 ^ 10" "- (2 ^ 31) \<le> n" "n < 2 ^ 31"
    and nul: "CHR 0x00 \<notin> set k"
    by auto
  have sel: "select_current_price k (working t1) = Some ?cur"
    using assms(1-3,5) by (rule select_after_success)
  have same: "\<not> dec_ne ?cur d" using assms(4) by (simp add: dec_ne_def)
  have idle1: "committed t1 = working t1"
    using update_product_idle [OF assms(1)] by (simp add: idle_def)
  let ?f = "\<lambda>r. if p_sku r = k
                then r\<lparr>current_price := quantize2 d, p_stock_level := n, last_updated := now2\<rparr>
                else r"
  let ?db = "(working t1)\<lparr>products := map ?f (products (working t1))\<rparr>"
  let ?t2 = "t1\<lparr>working := ?db, committed := ?db\<rparr>"
  have "update_products d n k now2 (working t1) = Inr ?db"
    unfolding update_products_Inr using bounds nul by simp
  with n have "update_existing_product now2 p k d ?cur t1 = (Inr (), t1\<lparr>working := ?db\<rparr>)"
    unfolding update_existing_product_unchanged [OF same] by blast
  with assms(3) nul have "update_product_try now2 p t1 = (Inr (), ?t2)"
    unfolding update_product_try_existing [OF assms(2) sel] by auto
  then have run: "update_product now2 p t1 = (Inr (), ?t2)"
    by (simp add: update_product_Inr)
  have "map ?f (products (working t1)) =
        map (\<lambda>r. if p_sku r = k then r\<lparr>last_updated := now2\<rparr> else r) (products (working t1))"
  proof (rule map_cong [OF refl])
    fix r assume "r \<in> set (products (working t1))"
    with rows_after_success [OF assms(1-3) n _ _ assms(5)] show
      "?f r = (if p_sku r = k then r\<lparr>last_updated := now2\<rparr> else r)"
      by auto
  qed
  with run idle1 show ?thesis by simp
qed

text \<open>
  Claim C7 at the price 10.001. The first call inserts \<^verbatim>\<open>SKU1\<close> with the price stored
  as 10.00. The second call, for the same item record, compares the stored 10.00 with
  the observed 10.001, finds them different, and appends a second \<^verbatim>\<open>price_history\<close>
  row and logs a price change, although the item has not changed.
\<close>

theorem repeated_observation_appends_history:
  "update_product 1 (observation ''SKU1'' (Decimal 10001 3) 5) connected =
     (Inr (), seen_once 1000 5) \<and>
   update_product 2 (observation ''SKU1'' (Decimal 10001 3) 5) (seen_once 1000 5) =
     (Inr (), tracking [sku1_row 1000 5 2] [sku1_entry 1000 5 1, sku1_entry 1000 5 2]
        [Added_new_product ''SKU1'',
         Price_change ''SKU1'' (Decimal 1000 2) (Decimal 10001 3)])"
  by (simp add: run_defs example_defs)

section \<open>What every call preserves\<close>

text \<open>
  Claim C8. Whatever the item and whatever the tables, as long as no transaction is open
  when it is called, \<^verbatim>\<open>update_product\<close> leaves the identifiers of the \<^verbatim>\<open>products\<close>
  rows pairwise distinct if they were, and leaves every \<^verbatim>\<open>price_history\<close> row that
  was there in place and unchanged: the old table is an initial segment of the new one.
  It also leaves no transaction open. This holds whether the call returns or raises.
\<close>

theorem reconcile_preserves_invariants:
  assumes "idle t" and "distinct (map p_sku (products (committed t)))"
    and "update_product now p t = (r, t')"
  shows "distinct (map p_sku (products (committed t'))) \<and>
         prefix (price_history (committed t)) (price_history (committed t')) \<and>
         idle t'"
proof -
  from assms(1) have w: "working t = committed t" by (simp add: idle_def)
  have i: "idle t'" using assms(3) by (rule update_product_idle)
  from assms(3) have "distinct (map p_sku (products (committed t'))) \<and>
         prefix (price_history (committed t)) (price_history (committed t'))"
  proof (cases rule: update_product_cases)
    case (failed e)
    with assms(2) show ?thesis by simp
  next
    case (new k)
    with assms(2,3) update_product_new [of now p t "()" t' k] show ?thesis
      by (auto simp: w)
  next
    case (existing k cur)
    with assms(2,3) update_product_existing [of now p t "()" t' k cur] show ?thesis
      by (auto simp: w map_sku_update_comp split: if_splits)
  qed
  with i show ?thesis by simp
qed

text \<open>
  Witness for C8: the second observation of \<^verbatim>\<open>SKU1\<close>, at a new price.
\<close>

theorem reconcile_preserves_invariants_witness:
  "idle (seen_once 1999 5) \<and>
   distinct (map p_sku (products (committed (seen_once 1999 5)))) \<and>
   update_product 3 (observation ''SKU1'' (Decimal 1799 2) 3) (seen_once 1999 5) =
     (Inr (), tracking [sku1_row 1799 3 3] [sku1_entry 1999 5 1, sku1_entry 1799 3 3]
        [Added_new_product ''SKU1'',
         Price_change ''SKU1'' (Decimal 1999 2) (Decimal 1799 2)]) \<and>
   distinct (map p_sku (products (committed
     (tracking [sku1_row 1799 3 3] [sku1_entry 1999 5 1, sku1_entry 1799 3 3]
        [Added_new_product ''SKU1'',
         Price_change ''SKU1'' (Decimal 1999 2) (Decimal 1799 2)])))) \<and>
   prefix (price_history (committed (seen_once 1999 5)))
     (price_history (committed
       (tracking [sku1_row 1799 3 3] [sku1_entry 1999 5 1, sku1_entry 1799 3 3]
        [Added_new_product ''SKU1'',
         Price_change ''SKU1'' (Decimal 1999 2) (Decimal 1799 2)])))"
proof -
  have run: "update_product 3 (observation ''SKU1'' (Decimal 1799 2) 3) (seen_once 1999 5) =
     (Inr (), tracking [sku1_row 1799 3 3] [sku1_entry 1999 5 1, sku1_entry 1799 3 3]
        [Added_new_product ''SKU1'',
         Price_change ''SKU1'' (Decimal 1999 2) (Decimal 1799 2)])"
    by (simp add: run_defs example_defs)
  have i: "idle (seen_once 1999 5)" by (simp add: idle_def example_defs)
  have d: "distinct (map p_sku (products (committed (seen_once 1999 5))))"
    by (simp add: example_defs)
  show ?thesis
    using reconcile_preserves_invariants [OF i d run] i d run by simp
qed

section \<open>Optional and required keys\<close>

text \<open>
  Claim C9. For an item whose identifier has no \<^verbatim>\<open>products\<close> row and whose five
  required keys are present with values the statements take (strings without NUL and of
  at most 255 characters, a price within the numeric format and the ten digits of the
  column, a stock count within \<^verbatim>\<open>INTEGER\<close>), \<^verbatim>\<open>update_product\<close> returns normally
  whether or not the keys \<^verbatim>\<open>ean\<close> and \<^verbatim>\<open>cat_name\<close> are present (a present value
  must be such a string too), and the new row holds the empty string for each of the two
  that is absent. An item without \<^verbatim>\<open>sku\<close>, \<^verbatim>\<open>price\<close> or \<^verbatim>\<open>in_stock\<close>, or a
  first-observed item without \<^verbatim>\<open>model\<close> or \<^verbatim>\<open>color\<close>, makes \<^verbatim>\<open>update_product\<close>
  raise, and nothing is written: the committed tables are as before and the connection
  sees them. The exception is the \<^verbatim>\<open>KeyError\<close> of a missing key, unless the identifier
  contains NUL, when it may be the \<^verbatim>\<open>ValueError\<close> of the first query.
\<close>

theorem optional_keys_default_required_keys_fail:
  "(sku p = Some k \<and> model p = Some m \<and> color p = Some c \<and> price p = Some d \<and>
    in_stock p = Some n \<and> select_current_price k (working t) = None \<and>
    length k \<le> 255 \<and> length m \<le> 255 \<and> length c \<le> 255 \<and>
    CHR 0x00 \<notin> set k \<and> CHR 0x00 \<notin> set m \<and> CHR 0x00 \<notin> set c \<and>
    places d \<le> 16383 \<and> \<bar>quantize2 d\<bar> < 10 ^ 10 \<and> - (2 ^ 31) \<le> n \<and> n < 2 ^ 31 \<and>
    (case ean p of None \<Rightarrow> True | Some e \<Rightarrow> length e \<le> 255 \<and> CHR 0x00 \<notin> set e) \<and>
    (case cat_name p of None \<Rightarrow> True | Some g \<Rightarrow> length g \<le> 255 \<and> CHR 0x00 \<notin> set g)
    \<longrightarrow>
      fst (update_product now p t) = Inr () \<and>
      products (committed (snd (update_product now p t))) = products (working t) @
        [\<lparr>p_sku = k, p_model = m, p_color = c, current_price = quantize2 d,
          last_updated = now, p_stock_level = n,
          p_ean = (case ean p of None \<Rightarrow> '''' | Some e \<Rightarrow> e),
          category = (case cat_name p of None \<Rightarrow> '''' | Some g \<Rightarrow> g)\<rparr>]) \<and>
   (sku p = None \<or> price p = None \<or> in_stock p = None \<or>
    (\<exists>k. sku p = Some k \<and> select_current_price k (working t) = None \<and>
         (model p = None \<or> color p = None))
    \<longrightarrow>
      ((\<exists>key. fst (update_product now p t) = Inl (KeyError key)) \<or>
       fst (update_product now p t) = Inl ValueError \<and>
       (\<exists>k. sku p = Some k \<and> CHR 0x00 \<in> set k)) \<and>
      committed (snd (update_product now p t)) = committed t \<and>
      working (snd (update_product now p t)) = committed t)"
proof (intro conjI impI)
  assume h: "sku p = Some k \<and> model p = Some m \<and> color p = Some c \<and> price p = Some d \<and>
    in_stock p = Some n \<and> select_current_price k (working t) = None \<and>
    length k \<le> 255 \<and> length m \<le> 255 \<and> length c \<le> 255 \<and>
    CHR 0x00 \<notin> set k \<and> CHR 0x00 \<notin> set m \<and> CHR 0x00 \<notin> set c \<and>
    places d \<le> 16383 \<and> \<bar>quantize2 d\<bar> < 10 ^ 10 \<and> - (2 ^ 31) \<le> n \<and> n < 2 ^ 31 \<and>
    (case ean p of None \<Rightarrow> True | Some e \<Rightarrow> length e \<le> 255 \<and> CHR 0x00 \<notin> set e) \<and>
    (case cat_name p of None \<Rightarrow> True | Some g \<Rightarrow> length g \<le> 255 \<and> CHR 0x00 \<notin> set g)"
  then have e: "length (get_default (ean p) '''') \<le> 255"
      "CHR 0x00 \<notin> set (get_default (ean p) '''')"
    and g: "length (get_default (cat_name p) '''') \<le> 255"
      "CHR 0x00 \<notin> set (get_default (cat_name p) '''')"
    by (auto simp: get_default_def split: option.splits)
  from h e g have ok: "text_ok k" "text_ok m" "text_ok c"
    "text_ok (get_default (ean p) '''')" "text_ok (get_default (cat_name p) '''')"
    by (simp_all add: text_ok_short)
  from h ok update_product_new_succeeds [of p k m c d n t now]
  obtain t' where run: "update_product now p t = (Inr (), t')" by blast
  from h update_product_new [OF run, of k]
  have "products (committed t') = products (working t) @
        [\<lparr>p_sku = take 255 k, p_model = take 255 m, p_color = take 255 c,
          current_price = quantize2 d, last_updated = now, p_stock_level = n,
          p_ean = take 255 (get_default (ean p) ''''),
          category = take 255 (get_default (cat_name p) '''')\<rparr>]"
    by auto
  with h e g have rows: "products (committed t') = products (working t) @
        [\<lparr>p_sku = k, p_model = m, p_color = c, current_price = quantize2 d,
          last_updated = now, p_stock_level = n,
          p_ean = (case ean p of None \<Rightarrow> '''' | Some e \<Rightarrow> e),
          category = (case cat_name p of None \<Rightarrow> '''' | Some g \<Rightarrow> g)\<rparr>]"
    by (simp add: get_default_def)
  from run show "fst (update_product now p t) = Inr ()" by simp
  from run rows show "products (committed (snd (update_product now p t))) =
      products (working t) @
        [\<lparr>p_sku = k, p_model = m, p_color = c, current_price = quantize2 d,
          last_updated = now, p_stock_level = n,
          p_ean = (case ean p of None \<Rightarrow> '''' | Some e \<Rightarrow> e),
          category = (case cat_name p of None \<Rightarrow> '''' | Some g \<Rightarrow> g)\<rparr>]"
    by simp
next
  assume h: "sku p = None \<or> price p = None \<or> in_stock p = None \<or>
    (\<exists>k. sku p = Some k \<and> select_current_price k (working t) = None \<and>
         (model p = None \<or> color p = None))"
  from update_product_missing_key [OF h, of now]
  show raised: "(\<exists>key. fst (update_product now p t) = Inl (KeyError key)) \<or>
       fst (update_product now p t) = Inl ValueError \<and>
       (\<exists>k. sku p = Some k \<and> CHR 0x00 \<in> set k)" .
  then obtain e where "fst (update_product now p t) = Inl e" by blast
  then have run: "update_product now p t = (Inl e, snd (update_product now p t))"
    by (metis prod.collapse)
  from update_product_Inl [OF run]
  show "committed (snd (update_product now p t)) = committed t"
    and "working (snd (update_product now p t)) = committed t"
    by simp_all
qed

text \<open>
  Witness for C9: the first observation of \<^verbatim>\<open>SKU1\<close> without \<^verbatim>\<open>ean\<close> and
  \<^verbatim>\<open>cat_name\<close>, and the same item without \<^verbatim>\<open>model\<close>.
\<close>

theorem optional_keys_default_required_keys_fail_witness:
  "ean (observation ''SKU1'' (Decimal 1999 2) 5) = None \<and>
   cat_name (observation ''SKU1'' (Decimal 1999 2) 5) = None \<and>
   select_current_price ''SKU1'' (working connected) = None \<and>
   fst (update_product 1 (observation ''SKU1'' (Decimal 1999 2) 5) connected) = Inr () \<and>
   products (committed (snd (update_product 1 (observation ''SKU1'' (Decimal 1999 2) 5)
     connected))) = [sku1_row 1999 5 1] \<and>
   p_ean (sku1_row 1999 5 1) = '''' \<and> category (sku1_row 1999 5 1) = '''' \<and>
   model ((observation ''SKU1'' (Decimal 1999 2) 5)\<lparr>model := None\<rparr>) = None \<and>
   fst (update_product 1 ((observation ''SKU1'' (Decimal 1999 2) 5)\<lparr>model := None\<rparr>)
     connected) = Inl (KeyError ''model'') \<and>
   committed (snd (update_product 1 ((observation ''SKU1'' (Decimal 1999 2) 5)\<lparr>model := None\<rparr>)
     connected)) = committed connected"
proof -
  let ?p = "observation ''SKU1'' (Decimal 1999 2) 5"
  let ?q = "(observation ''SKU1'' (Decimal 1999 2) 5)\<lparr>model := None\<rparr>"
  have sel: "select_current_price ''SKU1'' (working connected) = None"
    by (simp add: select_current_price_def example_defs)
  have a: "sku ?p = Some ''SKU1'' \<and> model ?p = Some ''M1'' \<and> color ?p = Some ''black'' \<and>
    price ?p = Some (Decimal 1999 2) \<and> in_stock ?p = Some 5 \<and>
    select_current_price ''SKU1'' (working connected) = None \<and>
    length ''SKU1'' \<le> 255 \<and> length ''M1'' \<le> 255 \<and> length ''black'' \<le> 255 \<and>
    CHR 0x00 \<notin> set ''SKU1'' \<and> CHR 0x00 \<notin> set ''M1'' \<and> CHR 0x00 \<notin> set ''black'' \<and>
    places (Decimal 1999 2) \<le> 16383 \<and>
    \<bar>quantize2 (Decimal 1999 2)\<bar> < 10 ^ 10 \<and> - (2 ^ 31) \<le> (5::int) \<and> (5::int) < 2 ^ 31 \<and>
    (case ean ?p of None \<Rightarrow> True | Some e \<Rightarrow> length e \<le> 255 \<and> CHR 0x00 \<notin> set e) \<and>
    (case cat_name ?p of None \<Rightarrow> True | Some g \<Rightarrow> length g \<le> 255 \<and> CHR 0x00 \<notin> set g)"
    by (simp add: observation_fields sel)
  have b: "sku ?q = None \<or> price ?q = None \<or> in_stock ?q = None \<or>
    (\<exists>k. sku ?q = Some k \<and> select_current_price k (working connected) = None \<and>
         (model ?q = None \<or> color ?q = None))"
    by (simp add: observation_def sel)
  note th = optional_keys_default_required_keys_fail
  from th [of ?p "''SKU1''" "''M1''" "''black''" "Decimal 1999 2" 5 connected 1] a
  have ok: "fst (update_product 1 ?p connected) = Inr ()"
    and rows: "products (committed (snd (update_product 1 ?p connected))) =
      products (working connected) @
        [\<lparr>p_sku = ''SKU1'', p_model = ''M1'', p_color = ''black'',
          current_price = quantize2 (Decimal 1999 2),
          last_updated = 1, p_stock_level = 5,
          p_ean = (case ean ?p of None \<Rightarrow> '''' | Some e \<Rightarrow> e),
          category = (case cat_name ?p of None \<Rightarrow> '''' | Some g \<Rightarrow> g)\<rparr>]"
    by blast+
  from rows have rows': "products (committed (snd (update_product 1 ?p connected))) =
      [sku1_row 1999 5 1]"
    by (simp add: observation_fields example_defs)
  from th [of ?q _ _ _ _ _ connected 1] b
  have same: "committed (snd (update_product 1 ?q connected)) = committed connected"
    by blast
  have err: "fst (update_product 1 ?q connected) = Inl (KeyError ''model'')"
    by (simp add: run_defs example_defs)
  have m: "model ?q = None" by (simp add: observation_def)
  have blank: "p_ean (sku1_row 1999 5 1) = ''''" "category (sku1_row 1999 5 1) = ''''"
    by (simp_all add: sku1_row_def)
  show ?thesis
    using observation_fields(6,7) [of "''SKU1''" "Decimal 1999 2" 5] sel ok rows' blank m err same
    by blast
qed

section \<open>The rows of other identifiers\<close>

text \<open>
  Claim C10, as amended. Whatever the item and whatever the tables, as long as no
  transaction is open when it is called, \<^verbatim>\<open>update_product\<close> leaves the \<^verbatim>\<open>products\<close>
  rows and the \<^verbatim>\<open>price_history\<close> rows of every identifier other than the first 255
  characters of the item's as they were, whether the call returns or raises.
\<close>

theorem other_identifiers_untouched:
  assumes "idle t" and "map_option (take 255) (sku p) \<noteq> Some k'"
    and "update_product now p t = (r, t')"
  shows "filter (\<lambda>r. p_sku r = k') (products (committed t')) =
           filter (\<lambda>r. p_sku r = k') (products (committed t)) \<and>
         filter (\<lambda>h. h_sku h = k') (price_history (committed t')) =
           filter (\<lambda>h. h_sku h = k') (price_history (committed t)) \<and>
         working t' = committed t'"
proof -
  from assms(1) have w: "working t = committed t" by (simp add: idle_def)
  from assms(3) show ?thesis
  proof (cases rule: update_product_cases)
    case (failed e)
    then show ?thesis by simp
  next
    case (new k)
    with assms(2) have "k' \<noteq> take 255 k" by auto
    with assms(3) new update_product_new [of now p t "()" t' k] show ?thesis
      by (auto simp: w)
  next
    case (existing k cur)
    from existing(3) have "length k \<le> 255" by (rule select_Some_length)
    with existing(2) assms(2) have "k' \<noteq> k" by auto
    with assms(3) existing update_product_existing [of now p t "()" t' k cur] show ?thesis
      by (auto simp: w filter_sku_update split: if_splits)
  qed
qed

text \<open>
  Witness for C10: with rows for \<^verbatim>\<open>SKU1\<close> in both tables, the first observation of
  \<^verbatim>\<open>SKU2\<close> leaves the rows of \<^verbatim>\<open>SKU1\<close> as they were.
\<close>

theorem other_identifiers_untouched_witness:
  "idle (seen_once 1999 5) \<and>
   map_option (take 255) (sku (observation ''SKU2'' (Decimal 500 2) 7)) \<noteq> Some ''SKU1'' \<and>
   fst (update_product 2 (observation ''SKU2'' (Decimal 500 2) 7) (seen_once 1999 5)) = Inr () \<and>
   filter (\<lambda>r. p_sku r = ''SKU1'') (products (committed
     (snd (update_product 2 (observation ''SKU2'' (Decimal 500 2) 7) (seen_once 1999 5))))) =
     [sku1_row 1999 5 1] \<and>
   filter (\<lambda>h. h_sku h = ''SKU1'') (price_history (committed
     (snd (update_product 2 (observation ''SKU2'' (Decimal 500 2) 7) (seen_once 1999 5))))) =
     [sku1_entry 1999 5 1] \<and>
   length (products (committed
     (snd (update_product 2 (observation ''SKU2'' (Decimal 500 2) 7) (seen_once 1999 5))))) = 2"
proof -
  have i: "idle (seen_once 1999 5)" by (simp add: idle_def example_defs)
  have n: "map_option (take 255) (sku (observation ''SKU2'' (Decimal 500 2) 7)) \<noteq> Some ''SKU1''"
    by (simp add: observation_def)
  have ok: "fst (update_product 2 (observation ''SKU2'' (Decimal 500 2) 7) (seen_once 1999 5))
              = Inr ()"
    by (simp add: run_defs example_defs)
  have len: "length (products (committed
     (snd (update_product 2 (observation ''SKU2'' (Decimal 500 2) 7) (seen_once 1999 5))))) = 2"
    by (simp add: run_defs example_defs)
  have old: "filter (\<lambda>r. p_sku r = ''SKU1'') (products (committed (seen_once 1999 5))) =
               [sku1_row 1999 5 1]"
    "filter (\<lambda>h. h_sku h = ''SKU1'') (price_history (committed (seen_once 1999 5))) =
               [sku1_entry 1999 5 1]"
    by (simp_all add: example_defs)
  show ?thesis
    using other_identifiers_untouched [OF i n surjective_pairing] i n ok len old by simp
qed

text \<open>
  Counterexample for C10 as stated: on empty tables, an item whose identifier is
  \<^verbatim>\<open>SKU1\<close> followed by 252 blanks is reconciled without error, and the rows committed
  are keyed by the first 255 characters, an identifier other than the item's.
\<close>

theorem other_identifiers_counterexample:
  "sku (observation padded_sku (Decimal 1999 2) 5) = Some padded_sku \<and>
   length padded_sku = 256 \<and> length padded_sku_stored = 255 \<and>
   fst (update_product 1 (observation padded_sku (Decimal 1999 2) 5) connected) = Inr () \<and>
   filter (\<lambda>r. p_sku r = padded_sku_stored) (products (committed connected)) = [] \<and>
   filter (\<lambda>h. h_sku h = padded_sku_stored) (price_history (committed connected)) = [] \<and>
   map p_sku (filter (\<lambda>r. p_sku r = padded_sku_stored) (products (committed
     (snd (update_product 1 (observation padded_sku (Decimal 1999 2) 5) connected))))) =
     [padded_sku_stored] \<and>
   map h_sku (filter (\<lambda>h. h_sku h = padded_sku_stored) (price_history (committed
     (snd (update_product 1 (observation padded_sku (Decimal 1999 2) 5) connected))))) =
     [padded_sku_stored]"
proof -
  have len: "length padded_sku = 256" "length padded_sku_stored = 255"
    by (simp_all add: padded_sku_def padded_sku_stored_def)
  have "(252::nat) = Suc 251" by simp
  then have "replicate 252 (CHR '' '') = replicate 251 (CHR '' '') @ [CHR '' '']"
    by (simp only: replicate.simps replicate_append_same)
  then have split: "padded_sku = padded_sku_stored @ [CHR '' '']"
    by (simp add: padded_sku_def padded_sku_stored_def)
  have cut: "take 255 padded_sku = padded_sku_stored" "drop 255 padded_sku = [CHR '' '']"
    unfolding split using len(2) by simp_all
  have nul: "CHR 0x00 \<notin> set padded_sku"
    by (simp add: padded_sku_def)
  have run: "update_product 1 (observation padded_sku (Decimal 1999 2) 5) connected =
    (Inr (), tracking
       [\<lparr>p_sku = padded_sku_stored, p_model = ''M1'', p_color = ''black'',
         current_price = 1999, last_updated = 1, p_stock_level = 5, p_ean = '''',
         category = ''''\<rparr>]
       [\<lparr>h_sku = padded_sku_stored, h_price = 1999, h_stock_level = 5, h_timestamp = 1\<rparr>]
       [Added_new_product padded_sku])"
    by (simp add: update_product_def update_product_try_def insert_new_product_def thn_def
        lift_def execute_def logger_def commit_def rollback_def insert_products_def
        insert_price_history_def select_current_price_def adapt_text_def to_varchar_255_def
        nul len cut to_numeric_10_2_def to_integer_def get_default_def Let_def example_defs)
  show ?thesis
    unfolding run by (simp add: len observation_def tracking_def connected_def)
qed

end
